theory Spec2Isabelle
  imports Main "HOL-Library.Word" "HOL-Library.AList"
begin

unbundle bit_operations_syntax

chapter \<open>cursor\_machine\_id.py: identifier generation and the configuration store\<close>

text \<open>
  A shallow embedding of \<^verbatim>\<open>src/cursor_machine_id.py\<close>. The program resets four telemetry
  identifiers in a JSON configuration file: it reads the file, draws new identifiers,
  backs the file up and rewrites it. Everything the Python does beyond returning a value
  (randomness, the file system, the clock, the terminal, exceptions) is an explicit
  argument or result here.

  Conventions. A Python \<^verbatim>\<open>str\<close> is a \<^typ>\<open>string\<close> holding its UTF-8 bytes, a
  \<^verbatim>\<open>bytes\<close> value is a list of 8-bit words. Python integers are \<^typ>\<open>int\<close>.
\<close>

section \<open>Bytes, hexadecimal and decimal text\<close>

type_synonym byte = "8 word"

text \<open>\<^verbatim>\<open>str.encode()\<close>: the UTF-8 bytes of a string, which is what a \<^typ>\<open>string\<close> holds.\<close>

definition str_encode :: "string \<Rightarrow> byte list" where
  "str_encode s = map of_char s"

definition hexdigits :: string where
  "hexdigits = ''0123456789abcdef''"

definition hex_of_byte :: "byte \<Rightarrow> string" where
  "hex_of_byte b = [hexdigits ! (unat b div 16), hexdigits ! (unat b mod 16)]"

text \<open>\<^verbatim>\<open>bytes.hex()\<close>: two lowercase hexadecimal digits for each byte.\<close>

definition bytes_hex :: "byte list \<Rightarrow> string" where
  "bytes_hex bs = concat (map hex_of_byte bs)"

text \<open>The inverse reading, used to state what a hexadecimal identifier decodes to:
  the value of one lowercase hexadecimal digit, and the bytes of a digit string.\<close>

definition hex_value :: "char \<Rightarrow> nat option" where
  "hex_value c = (if c \<in> set hexdigits then Some (length (takeWhile (\<lambda>d. d \<noteq> c) hexdigits)) else None)"

fun hex_decode :: "string \<Rightarrow> byte list option" where
  "hex_decode [] = Some []"
| "hex_decode [c] = None"
| "hex_decode (c # d # cs) =
     (case (hex_value c, hex_value d, hex_decode cs) of
        (Some h, Some l, Some bs) \<Rightarrow> Some (word_of_nat (16 * h + l) # bs)
      | _ \<Rightarrow> None)"

text \<open>The format a SHA-256 \<^verbatim>\<open>hexdigest()\<close> has: \<^verbatim>\<open>^[0-9a-f]{64}$\<close>.\<close>

definition is_lower_hex64 :: "string \<Rightarrow> bool" where
  "is_lower_hex64 s = (length s = 64 \<and> list_all (\<lambda>c. c \<in> set hexdigits) s)"

text \<open>\<^verbatim>\<open>str(n)\<close> for a natural number, and the format \<^verbatim>\<open>f"{n:02d}"\<close>: the decimal digits,
  padded with zeros after the sign to a width of at least two.\<close>

definition digit_char :: "nat \<Rightarrow> char" where
  "digit_char d = ''0123456789'' ! d"

fun str_of_nat :: "nat \<Rightarrow> string" where
  "str_of_nat n = (if n < 10 then [digit_char n]
                   else str_of_nat (n div 10) @ [digit_char (n mod 10)])"

definition zero_pad :: "nat \<Rightarrow> string \<Rightarrow> string" where
  "zero_pad w s = replicate (w - length s) (CHR ''0'') @ s"

definition format_02d :: "int \<Rightarrow> string" where
  "format_02d n = (if n < 0 then ''-'' @ zero_pad 1 (str_of_nat (nat (- n)))
                   else zero_pad 2 (str_of_nat (nat n)))"

section \<open>SHA-256\<close>

text \<open>
  \<^verbatim>\<open>hashlib.sha256(data).digest()\<close>, after FIPS 180-4: the message is padded to a
  multiple of 64 bytes and compressed block by block into eight 32-bit words.
\<close>

definition rotr :: "nat \<Rightarrow> 32 word \<Rightarrow> 32 word" where
  "rotr n x = word_rotr n x"

definition Ch :: "32 word \<Rightarrow> 32 word \<Rightarrow> 32 word \<Rightarrow> 32 word" where
  "Ch x y z = (x AND y) XOR (NOT x AND z)"

definition Maj :: "32 word \<Rightarrow> 32 word \<Rightarrow> 32 word \<Rightarrow> 32 word" where
  "Maj x y z = (x AND y) XOR (x AND z) XOR (y AND z)"

definition bsig0 :: "32 word \<Rightarrow> 32 word" where
  "bsig0 x = rotr 2 x XOR rotr 13 x XOR rotr 22 x"

definition bsig1 :: "32 word \<Rightarrow> 32 word" where
  "bsig1 x = rotr 6 x XOR rotr 11 x XOR rotr 25 x"

definition ssig0 :: "32 word \<Rightarrow> 32 word" where
  "ssig0 x = rotr 7 x XOR rotr 18 x XOR drop_bit 3 x"

definition ssig1 :: "32 word \<Rightarrow> 32 word" where
  "ssig1 x = rotr 17 x XOR rotr 19 x XOR drop_bit 10 x"

text \<open>
  The round constants are the first 32 bits of the fractional parts of the cube roots of
  the first 64 primes, the initial hash value those of the square roots of the first 8
  primes. \<open>iroot k n\<close> is the integer \<open>k\<close>-th root of \<open>n\<close>, found bit by bit from
  the top; the roots needed here are below \<open>2 ^ 40\<close>.
\<close>

definition iroot :: "nat \<Rightarrow> nat \<Rightarrow> nat" where
  "iroot k n = foldl (\<lambda>r i. if (r + 2 ^ i) ^ k \<le> n then r + 2 ^ i else r) 0 (rev [0..<40])"

definition is_prime_nat :: "nat \<Rightarrow> bool" where
  "is_prime_nat n = (2 \<le> n \<and> list_all (\<lambda>d. n mod d \<noteq> 0) [2..<n])"

definition primes_below :: "nat \<Rightarrow> nat list" where
  "primes_below m = filter is_prime_nat [2..<m]"

definition sha256_K :: "32 word list" where
  "sha256_K = map (\<lambda>p. word_of_nat (iroot 3 (p * 2 ^ 96))) (primes_below 312)"

definition sha256_H0 :: "32 word list" where
  "sha256_H0 = map (\<lambda>p. word_of_nat (iroot 2 (p * 2 ^ 64))) (primes_below 20)"

definition be32 :: "byte list \<Rightarrow> 32 word" where
  "be32 bs = foldl (\<lambda>acc b. push_bit 8 acc OR ucast b) 0 (take 4 bs)"

definition be_bytes32 :: "32 word \<Rightarrow> byte list" where
  "be_bytes32 w = map (\<lambda>i. ucast (drop_bit (8 * (3 - i)) w)) [0..<4]"

definition be_bytes64 :: "64 word \<Rightarrow> byte list" where
  "be_bytes64 w = map (\<lambda>i. ucast (drop_bit (8 * (7 - i)) w)) [0..<8]"

definition sha256_pad :: "byte list \<Rightarrow> byte list" where
  "sha256_pad m = m @ [0x80] @ replicate ((119 - length m mod 64) mod 64) 0
                    @ be_bytes64 (word_of_nat (8 * length m))"

fun chunks :: "nat \<Rightarrow> nat \<Rightarrow> 'a list \<Rightarrow> 'a list list" where
  "chunks 0 k xs = []"
| "chunks (Suc n) k xs = take k xs # chunks n k (drop k xs)"

fun schedule :: "nat \<Rightarrow> 32 word list \<Rightarrow> 32 word list" where
  "schedule 0 w = w"
| "schedule (Suc n) w =
     schedule n (w @ [ssig1 (w ! (length w - 2)) + w ! (length w - 7)
                      + ssig0 (w ! (length w - 15)) + w ! (length w - 16)])"

type_synonym sha_state =
  "32 word \<times> 32 word \<times> 32 word \<times> 32 word \<times> 32 word \<times> 32 word \<times> 32 word \<times> 32 word"

definition sha_round :: "sha_state \<Rightarrow> 32 word \<times> 32 word \<Rightarrow> sha_state" where
  "sha_round s kw = (case s of (a, b, c, d, e, f, g, h) \<Rightarrow>
     (let t1 = h + bsig1 e + Ch e f g + fst kw + snd kw;
          t2 = bsig0 a + Maj a b c
      in (t1 + t2, a, b, c, d + t1, e, f, g)))"

definition sha_compress :: "32 word list \<Rightarrow> byte list \<Rightarrow> 32 word list" where
  "sha_compress hs block =
     (let w = schedule 48 (map be32 (chunks 16 4 block));
          s0 = (hs ! 0, hs ! 1, hs ! 2, hs ! 3, hs ! 4, hs ! 5, hs ! 6, hs ! 7)
      in case foldl sha_round s0 (zip sha256_K w) of (a, b, c, d, e, f, g, h) \<Rightarrow>
           [hs ! 0 + a, hs ! 1 + b, hs ! 2 + c, hs ! 3 + d,
            hs ! 4 + e, hs ! 5 + f, hs ! 6 + g, hs ! 7 + h])"

definition sha256 :: "byte list \<Rightarrow> byte list" where
  "sha256 m = (let p = sha256_pad m in
     concat (map be_bytes32 (foldl sha_compress sha256_H0 (chunks (length p div 64) 64 p))))"

text \<open>\<^verbatim>\<open>hashlib.sha256(data).hexdigest()\<close>.\<close>

definition sha256_hexdigest :: "byte list \<Rightarrow> string" where
  "sha256_hexdigest m = bytes_hex (sha256 m)"

section \<open>The random sources\<close>

text \<open>
  The program draws randomness from two places: \<^verbatim>\<open>os.urandom\<close> (also behind
  \<^verbatim>\<open>uuid.uuid4\<close>) and the \<^verbatim>\<open>random\<close> module. Both are infinite tapes here; a call
  reads from the front of its tape and returns the tape advanced. \<^verbatim>\<open>random.randint\<close>
  and \<^verbatim>\<open>random.choices\<close> reduce one raw draw per value into the range asked for, so
  that every value of the range can come out and no other.
\<close>

record entropy =
  urandom_bytes :: "nat \<Rightarrow> byte"
  random_draws :: "nat \<Rightarrow> nat"

definition os_urandom :: "nat \<Rightarrow> entropy \<Rightarrow> byte list \<times> entropy" where
  "os_urandom n e =
     (map (urandom_bytes e) [0..<n], e\<lparr>urandom_bytes := \<lambda>i. urandom_bytes e (n + i)\<rparr>)"

definition random_randint :: "int \<Rightarrow> int \<Rightarrow> entropy \<Rightarrow> int \<times> entropy" where
  "random_randint a b e =
     (a + int (random_draws e 0 mod nat (b - a + 1)),
      e\<lparr>random_draws := \<lambda>i. random_draws e (Suc i)\<rparr>)"

text \<open>\<^verbatim>\<open>random.choices(population, k=k)\<close> for a non-empty population.\<close>

definition random_choices :: "'a list \<Rightarrow> nat \<Rightarrow> entropy \<Rightarrow> 'a list \<times> entropy" where
  "random_choices population k e =
     (map (\<lambda>i. population ! (random_draws e i mod length population)) [0..<k],
      e\<lparr>random_draws := \<lambda>i. random_draws e (k + i)\<rparr>)"

text \<open>
  \<^verbatim>\<open>uuid.uuid4()\<close> is \<^verbatim>\<open>UUID(bytes=os.urandom(16), version=4)\<close>: the 16 bytes are read as
  a big-endian 128-bit integer, the variant bits are set to \<^verbatim>\<open>10\<close> and the version
  nibble to 4. \<^verbatim>\<open>str\<close> of a UUID prints the 32 hexadecimal digits in groups of
  8-4-4-4-12.
\<close>

definition int_from_bytes :: "byte list \<Rightarrow> 128 word" where
  "int_from_bytes bs = foldl (\<lambda>acc b. push_bit 8 acc OR ucast b) 0 bs"

definition uuid4 :: "entropy \<Rightarrow> 128 word \<times> entropy" where
  "uuid4 e = (case os_urandom 16 e of (bs, e') \<Rightarrow>
     (let n0 = int_from_bytes bs;
          n1 = n0 AND NOT (push_bit 48 0xc000);
          n2 = n1 OR push_bit 48 0x8000;
          n3 = n2 AND NOT (push_bit 64 0xf000);
          n4 = n3 OR push_bit 76 4
      in (n4, e')))"

definition hex32 :: "128 word \<Rightarrow> string" where
  "hex32 n = map (\<lambda>i. hexdigits ! unat (drop_bit (4 * (31 - i)) n AND 15)) [0..<32]"

definition uuid_str :: "128 word \<Rightarrow> string" where
  "uuid_str n = (let h = hex32 n in
     take 8 h @ ''-'' @ take 4 (drop 8 h) @ ''-'' @ take 4 (drop 12 h) @ ''-''
       @ take 4 (drop 16 h) @ ''-'' @ drop 20 h)"

section \<open>JSON values and the identifier set\<close>

text \<open>
  What \<^verbatim>\<open>json.load\<close> returns: \<^verbatim>\<open>None\<close>, a bool, an int, a float (kept as its IEEE 754
  binary64 bit pattern), a string, a list or a dict. A dict is an association list in
  insertion order; a lookup takes the first entry for the key.
\<close>

datatype json =
    JNull
  | JBool bool
  | JInt int
  | JFloat "64 word"
  | JStr string
  | JList "json list"
  | JDict "(string \<times> json) list"

text \<open>Python's truth value of such an object: \<^verbatim>\<open>None\<close>, \<^verbatim>\<open>False\<close>, zero (of either
  sign for a float) and the empty string, list and dict are false.\<close>

fun py_truthy :: "json \<Rightarrow> bool" where
  "py_truthy JNull = False"
| "py_truthy (JBool b) = b"
| "py_truthy (JInt i) = (i \<noteq> 0)"
| "py_truthy (JFloat w) = (push_bit 1 w \<noteq> 0)"
| "py_truthy (JStr s) = (s \<noteq> [])"
| "py_truthy (JList xs) = (xs \<noteq> [])"
| "py_truthy (JDict kvs) = (kvs \<noteq> [])"

text \<open>
  The dataclass \<^verbatim>\<open>StorageConfig\<close>. Its fields are annotated \<^verbatim>\<open>str\<close>, but Python does not
  enforce the annotation and \<^verbatim>\<open>read_existing_config\<close> stores whatever the JSON document
  holds under the key, so a field is a JSON value.
\<close>

record StorageConfig =
  telemetry_mac_machine_id :: json
  telemetry_machine_id :: json
  telemetry_dev_device_id :: json
  telemetry_sqm_id :: json

definition to_dict :: "StorageConfig \<Rightarrow> (string \<times> json) list" where
  "to_dict c =
     [(''telemetry.macMachineId'', telemetry_mac_machine_id c),
      (''telemetry.machineId'', telemetry_machine_id c),
      (''telemetry.devDeviceId'', telemetry_dev_device_id c),
      (''telemetry.sqmId'', telemetry_sqm_id c)]"

section \<open>Identifier generation\<close>

text \<open>\<^verbatim>\<open>str.replace(c, '')\<close> for a one-character pattern removes every occurrence.\<close>

definition str_remove :: "char \<Rightarrow> string \<Rightarrow> string" where
  "str_remove c s = filter (\<lambda>x. x \<noteq> c) s"

definition ascii_uppercase :: string where
  "ascii_uppercase = ''ABCDEFGHIJKLMNOPQRSTUVWXYZ''"

definition digits :: string where
  "digits = ''0123456789''"

definition machine_id_alphabet :: string where
  "machine_id_alphabet =
     ascii_uppercase @ str_remove (CHR ''1'') (str_remove (CHR ''0'') digits)"

definition generate_machine_id :: "entropy \<Rightarrow> string \<times> entropy" where
  "generate_machine_id e =
     (let prefix = ''auth0|user_'' in
      case random_randint 0 99 e of (n, e1) \<Rightarrow>
      case random_choices machine_id_alphabet 23 e1 of (unique_id, e2) \<Rightarrow>
        (bytes_hex (str_encode (prefix @ format_02d n @ unique_id)), e2))"

definition generate_mac_machine_id :: "entropy \<Rightarrow> string \<times> entropy" where
  "generate_mac_machine_id e =
     (case os_urandom 32 e of (data, e') \<Rightarrow> (sha256_hexdigest data, e'))"

definition generate_dev_device_id :: "entropy \<Rightarrow> string \<times> entropy" where
  "generate_dev_device_id e = (case uuid4 e of (u, e') \<Rightarrow> (uuid_str u, e'))"

text \<open>\<^verbatim>\<open>if old_config and old_config.telemetry_sqm_id\<close>: a dataclass instance is always
  true, so the test is that the old configuration is there and its field is true.\<close>

definition keeps_sqm_id :: "StorageConfig option \<Rightarrow> bool" where
  "keeps_sqm_id old_config =
     (case old_config of None \<Rightarrow> False | Some c \<Rightarrow> py_truthy (telemetry_sqm_id c))"

definition new_storage_config :: "StorageConfig option \<Rightarrow> entropy \<Rightarrow> StorageConfig \<times> entropy" where
  "new_storage_config old_config e =
     (case generate_mac_machine_id e of (mac, e1) \<Rightarrow>
      case generate_machine_id e1 of (machine, e2) \<Rightarrow>
      case generate_dev_device_id e2 of (dev, e3) \<Rightarrow>
      (let config = \<lparr>telemetry_mac_machine_id = JStr mac, telemetry_machine_id = JStr machine,
                     telemetry_dev_device_id = JStr dev, telemetry_sqm_id = JStr ''''\<rparr>
       in case old_config of
            Some c \<Rightarrow>
              (if py_truthy (telemetry_sqm_id c)
               then (config\<lparr>telemetry_sqm_id := telemetry_sqm_id c\<rparr>, e3)
               else (case generate_mac_machine_id e3 of (sqm, e4) \<Rightarrow>
                       (config\<lparr>telemetry_sqm_id := JStr sqm\<rparr>, e4)))
          | None \<Rightarrow>
              (case generate_mac_machine_id e3 of (sqm, e4) \<Rightarrow>
                 (config\<lparr>telemetry_sqm_id := JStr sqm\<rparr>, e4))))"

section \<open>Exceptions\<close>

text \<open>
  The exceptions that can arise in the modelled code. \<^verbatim>\<open>AppError\<close> is the program's own
  class; it carries the error type, the operation, the path and the underlying exception
  (its \<^verbatim>\<open>context\<close> is never given). All of these derive from \<^verbatim>\<open>Exception\<close>, so
  \<^verbatim>\<open>except Exception\<close> catches every one of them.
\<close>

datatype exn =
    FileNotFoundError
  | PermissionError
  | IsADirectoryError
  | NotADirectoryError
  | FileExistsError
  | UnicodeDecodeError
  | JSONDecodeError
  | AttributeError
  | TypeError
  | UnboundLocalError
  | EOFError
  | CalledProcessError
  | AppError string string string exn

definition ERR_CONFIG :: string where
  "ERR_CONFIG = ''config_error''"

section \<open>Paths\<close>

text \<open>\<^verbatim>\<open>posixpath.join\<close>, \<^verbatim>\<open>posixpath.split\<close> and \<^verbatim>\<open>posixpath.dirname\<close>, on path strings.\<close>

definition join2 :: "string \<Rightarrow> string \<Rightarrow> string" where
  "join2 a b =
     (if b \<noteq> [] \<and> hd b = CHR ''/'' then b
      else if a = [] \<or> last a = CHR ''/'' then a @ b
      else a @ ''/'' @ b)"

definition os_path_join :: "string \<Rightarrow> string list \<Rightarrow> string" where
  "os_path_join a ps = foldl join2 a ps"

definition rstrip_sep :: "string \<Rightarrow> string" where
  "rstrip_sep s = rev (dropWhile (\<lambda>c. c = CHR ''/'') (rev s))"

definition path_split :: "string \<Rightarrow> string \<times> string" where
  "path_split p =
     (let head = rev (dropWhile (\<lambda>c. c \<noteq> CHR ''/'') (rev p));
          tail = rev (takeWhile (\<lambda>c. c \<noteq> CHR ''/'') (rev p))
      in (if head \<noteq> [] \<and> head \<noteq> replicate (length head) (CHR ''/'') then rstrip_sep head
          else head, tail))"

definition os_path_dirname :: "string \<Rightarrow> string" where
  "os_path_dirname p = fst (path_split p)"

text \<open>\<^verbatim>\<open>get_config_path\<close>; \<open>sysname\<close> is what \<^verbatim>\<open>platform.system()\<close> returns.\<close>

definition get_config_path :: "string \<Rightarrow> string \<Rightarrow> string" where
  "get_config_path sysname username =
     (if sysname = ''Darwin''
      then os_path_join ''/Users'' [username, ''Library'', ''Application Support'', ''Cursor'',
             ''User'', ''globalStorage'', ''storage.json'']
      else os_path_join ''/home'' [username, ''.config'', ''Cursor'', ''User'',
             ''globalStorage'', ''storage.json''])"

section \<open>The file system\<close>

text \<open>
  A file system maps a path string to what is there: a regular file with its bytes, or
  a directory. Paths are names as the program writes them (no symbolic links, no
  normalisation of \<^verbatim>\<open>..\<close>). Access rights are those of the running process: for a
  file, whether it may read and write it and whether it owns it (only the owner may
  \<^verbatim>\<open>chmod\<close>); for a directory, whether it may create entries in it and whether it owns
  it.
\<close>

datatype node =
    File (content: string) (readable: bool) (writable: bool) (file_owned: bool)
  | Dir (creatable: bool) (dir_owned: bool)

type_synonym filesystem = "string \<Rightarrow> node option"

definition os_path_exists :: "filesystem \<Rightarrow> string \<Rightarrow> bool" where
  "os_path_exists fs p = (fs p \<noteq> None)"

definition os_path_isdir :: "filesystem \<Rightarrow> string \<Rightarrow> bool" where
  "os_path_isdir fs p = (case fs p of Some (Dir w ow) \<Rightarrow> True | _ \<Rightarrow> False)"

definition is_file :: "filesystem \<Rightarrow> string \<Rightarrow> bool" where
  "is_file fs p = (case fs p of Some (File c r w ow) \<Rightarrow> True | _ \<Rightarrow> False)"

text \<open>\<^verbatim>\<open>os.mkdir(name)\<close>: a new directory, owned by the process.\<close>

definition os_mkdir :: "string \<Rightarrow> filesystem \<Rightarrow> exn + filesystem" where
  "os_mkdir name fs =
     (if fs name \<noteq> None then Inl FileExistsError
      else case fs (os_path_dirname name) of
             None \<Rightarrow> Inl FileNotFoundError
           | Some (File c r w ow) \<Rightarrow> Inl NotADirectoryError
           | Some (Dir w ow) \<Rightarrow>
               if w then Inr (fs(name \<mapsto> Dir True True)) else Inl PermissionError)"

text \<open>The end of \<^verbatim>\<open>os.makedirs(name, exist_ok=True)\<close>: \<^verbatim>\<open>mkdir\<close>, where an \<^verbatim>\<open>OSError\<close> is
  dropped when the directory is there.\<close>

definition mkdir_exist_ok :: "string \<Rightarrow> filesystem \<Rightarrow> exn option \<times> filesystem" where
  "mkdir_exist_ok name fs =
     (case os_mkdir name fs of
        Inr fs' \<Rightarrow> (None, fs')
      | Inl e \<Rightarrow> if os_path_isdir fs name then (None, fs) else (Some e, fs))"

text \<open>
  \<^verbatim>\<open>os.makedirs(name, exist_ok=True)\<close>: split off the last component (once more when the
  name ends in a slash); when the head is missing, make it first, passing over a
  \<^verbatim>\<open>FileExistsError\<close>; then make the directory itself unless the last component is
  \<^verbatim>\<open>.\<close>. The result is the exception raised, if any, and the file system as it was left.
\<close>

function os_makedirs :: "string \<Rightarrow> filesystem \<Rightarrow> exn option \<times> filesystem" where
  "os_makedirs name fs =
     (case path_split name of (head0, tail0) \<Rightarrow>
      case (if tail0 = [] then path_split head0 else (head0, tail0)) of (head, tail) \<Rightarrow>
        if head \<noteq> [] \<and> tail \<noteq> [] \<and> \<not> os_path_exists fs head then
          (case os_makedirs head fs of
             (Some e, fs1) \<Rightarrow>
               if e = FileExistsError
               then (if tail = ''.'' then (None, fs1) else mkdir_exist_ok name fs1)
               else (Some e, fs1)
           | (None, fs1) \<Rightarrow> if tail = ''.'' then (None, fs1) else mkdir_exist_ok name fs1)
        else mkdir_exist_ok name fs)"
  by pat_completeness auto
termination
proof (relation "measure (\<lambda>(name, fs). length name)")
  show "wf (measure (\<lambda>(name, fs). length name))"
    by simp
next
  fix name :: string and fs :: filesystem and head0 tail0 head tail :: string
  assume s0: "(head0, tail0) = path_split name"
    and s1: "(head, tail) = (if tail0 = [] then path_split head0 else (head0, tail0))"
    and c: "head \<noteq> [] \<and> tail \<noteq> [] \<and> \<not> os_path_exists fs head"
  have le: "length (fst (path_split p)) + length (snd (path_split p)) \<le> length p" for p
  proof -
    have strip: "length (rstrip_sep h) \<le> length h" for h
      using length_dropWhile_le [of "\<lambda>c. c = CHR ''/''" "rev h"] by (simp add: rstrip_sep_def)
    have parts: "length (dropWhile (\<lambda>c. c \<noteq> CHR ''/'') (rev p))
        + length (takeWhile (\<lambda>c. c \<noteq> CHR ''/'') (rev p)) = length p"
    proof -
      have "length (takeWhile (\<lambda>c. c \<noteq> CHR ''/'') (rev p)
          @ dropWhile (\<lambda>c. c \<noteq> CHR ''/'') (rev p)) = length (rev p)"
        by (simp only: takeWhile_dropWhile_id)
      then have "length (takeWhile (\<lambda>c. c \<noteq> CHR ''/'') (rev p))
          + length (dropWhile (\<lambda>c. c \<noteq> CHR ''/'') (rev p)) = length p"
        by (simp only: length_append length_rev)
      then show ?thesis by linarith
    qed
    show ?thesis
      using parts strip [of "rev (dropWhile (\<lambda>c. c \<noteq> CHR ''/'') (rev p))"]
      by (simp add: path_split_def Let_def)
  qed
  have "length head + length tail \<le> length name"
  proof (cases "tail0 = []")
    case True
    then have "(head, tail) = path_split head0" using s1 by simp
    then have "length head + length tail \<le> length head0"
      using le [of head0] by (cases "path_split head0") simp
    moreover have "length head0 \<le> length name"
      using le [of name] s0 by (cases "path_split name") simp
    ultimately show ?thesis by simp
  next
    case False
    then have "(head, tail) = path_split name" using s0 s1 by simp
    then show ?thesis using le [of name] by (cases "path_split name") simp
  qed
  with c show "((head, fs), name, fs) \<in> measure (\<lambda>(name, fs). length name)"
    by (cases tail) auto
qed

declare os_makedirs.simps [simp del]

text \<open>
  What \<^verbatim>\<open>os.makedirs(name, exist_ok=True)\<close> finds when it can do its work:
  \<^verbatim>\<open>dir_chain fs name ds\<close> says that \<^verbatim>\<open>ds\<close> are the missing directories from \<^verbatim>\<open>name\<close>
  upwards, each the parent of the one before, and that the first name above them is a
  directory in which the process may create entries. With nothing missing, \<^verbatim>\<open>name\<close>
  itself is such a directory (and its parent is there, as in any file system).
\<close>

inductive dir_chain :: "filesystem \<Rightarrow> string \<Rightarrow> string list \<Rightarrow> bool" where
  present:
    "fs name = Some (Dir True ow) \<Longrightarrow> path_split name = (head, tail) \<Longrightarrow> tail \<noteq> []
       \<Longrightarrow> fs head \<noteq> None \<Longrightarrow> dir_chain fs name []"
| below_present:
    "fs name = None \<Longrightarrow> path_split name = (head, tail) \<Longrightarrow> tail \<noteq> []
       \<Longrightarrow> fs head = Some (Dir True ow) \<Longrightarrow> dir_chain fs name [name]"
| below_missing:
    "fs name = None \<Longrightarrow> path_split name = (head, tail) \<Longrightarrow> head \<noteq> [] \<Longrightarrow> tail \<noteq> []
       \<Longrightarrow> tail \<noteq> ''.'' \<Longrightarrow> fs head = None \<Longrightarrow> dir_chain fs head ds
       \<Longrightarrow> dir_chain fs name (name # ds)"

code_pred dir_chain .

text \<open>
  \<^verbatim>\<open>os.chmod(path, mode)\<close>, for the owner only. What matters of the mode is what it
  grants: read (\<^verbatim>\<open>0o400\<close>) and write (\<^verbatim>\<open>0o200\<close>) on a file; on a directory entries can
  be created with write and search (\<^verbatim>\<open>0o100\<close>) together. The program's mode
  \<^verbatim>\<open>0o666\<close> is 438.
\<close>

definition mode_bit :: "nat \<Rightarrow> nat \<Rightarrow> bool" where
  "mode_bit mode b = ((mode div b) mod 2 = 1)"

definition os_chmod :: "string \<Rightarrow> nat \<Rightarrow> filesystem \<Rightarrow> exn + filesystem" where
  "os_chmod p mode fs =
     (case fs p of
        None \<Rightarrow> Inl FileNotFoundError
      | Some (File c r w ow) \<Rightarrow>
          if ow then Inr (fs(p \<mapsto> File c (mode_bit mode 256) (mode_bit mode 128) ow))
          else Inl PermissionError
      | Some (Dir w ow) \<Rightarrow>
          if ow then Inr (fs(p \<mapsto> Dir (mode_bit mode 128 \<and> mode_bit mode 64) ow))
          else Inl PermissionError)"

text \<open>\<^verbatim>\<open>open(path, 'r', encoding='utf-8')\<close>: the bytes that a later \<^verbatim>\<open>read()\<close> decodes.\<close>

definition open_read :: "filesystem \<Rightarrow> string \<Rightarrow> exn + string" where
  "open_read fs p =
     (case fs p of
        None \<Rightarrow> Inl FileNotFoundError
      | Some (Dir w ow) \<Rightarrow> Inl IsADirectoryError
      | Some (File c r w ow) \<Rightarrow> if r then Inr c else Inl PermissionError)"

text \<open>\<^verbatim>\<open>open(path, 'w', encoding='utf-8')\<close>: an existing file is emptied, a missing one
  is created in its directory.\<close>

definition open_write :: "string \<Rightarrow> filesystem \<Rightarrow> exn + filesystem" where
  "open_write p fs =
     (case fs p of
        Some (Dir w ow) \<Rightarrow> Inl IsADirectoryError
      | Some (File c r w ow) \<Rightarrow>
          if w then Inr (fs(p \<mapsto> File [] r w ow)) else Inl PermissionError
      | None \<Rightarrow>
          (case fs (os_path_dirname p) of
             None \<Rightarrow> Inl FileNotFoundError
           | Some (File c r w ow) \<Rightarrow> Inl NotADirectoryError
           | Some (Dir w ow) \<Rightarrow>
               if w then Inr (fs(p \<mapsto> File [] True True True)) else Inl PermissionError))"

text \<open>\<^verbatim>\<open>f.write(text)\<close> on a file opened for writing, then closing it. Text is written
  as its UTF-8 bytes; on POSIX a newline is written as it is.\<close>

definition file_write :: "string \<Rightarrow> string \<Rightarrow> filesystem \<Rightarrow> filesystem" where
  "file_write p text fs =
     (case fs p of
        Some (File c r w ow) \<Rightarrow> fs(p \<mapsto> File (c @ text) r w ow)
      | _ \<Rightarrow> fs)"

subsection \<open>Reading text\<close>

text \<open>
  \<^verbatim>\<open>f.read()\<close> on a file opened in text mode with \<^verbatim>\<open>encoding='utf-8'\<close> decodes the bytes,
  raising \<^verbatim>\<open>UnicodeDecodeError\<close> unless they are well-formed UTF-8 (table 3-7 of the
  Unicode standard), and, the \<^verbatim>\<open>newline\<close> argument being left out, turns every
  \<^verbatim>\<open>\r\n\<close> and every lone \<^verbatim>\<open>\r\<close> into \<^verbatim>\<open>\n\<close>.
\<close>

definition cont_byte :: "nat \<Rightarrow> bool" where
  "cont_byte b = (128 \<le> b \<and> b \<le> 191)"

fun utf8_valid :: "nat list \<Rightarrow> bool" where
  "utf8_valid [] = True"
| "utf8_valid [a] = (a < 128)"
| "utf8_valid [a, b] =
     (if a < 128 then utf8_valid [b] else 194 \<le> a \<and> a \<le> 223 \<and> cont_byte b)"
| "utf8_valid [a, b, c] =
     (if a < 128 then utf8_valid [b, c]
      else if 194 \<le> a \<and> a \<le> 223 then cont_byte b \<and> utf8_valid [c]
      else (a = 224 \<and> 160 \<le> b \<and> b \<le> 191
            \<or> (225 \<le> a \<and> a \<le> 236 \<or> a = 238 \<or> a = 239) \<and> cont_byte b
            \<or> a = 237 \<and> 128 \<le> b \<and> b \<le> 159) \<and> cont_byte c)"
| "utf8_valid (a # b # c # d # r) =
     (if a < 128 then utf8_valid (b # c # d # r)
      else if 194 \<le> a \<and> a \<le> 223 then cont_byte b \<and> utf8_valid (c # d # r)
      else if 224 \<le> a \<and> a \<le> 239 then
        (a = 224 \<and> 160 \<le> b \<and> b \<le> 191
         \<or> (225 \<le> a \<and> a \<le> 236 \<or> a = 238 \<or> a = 239) \<and> cont_byte b
         \<or> a = 237 \<and> 128 \<le> b \<and> b \<le> 159) \<and> cont_byte c \<and> utf8_valid (d # r)
      else (a = 240 \<and> 144 \<le> b \<and> b \<le> 191
            \<or> 241 \<le> a \<and> a \<le> 243 \<and> cont_byte b
            \<or> a = 244 \<and> 128 \<le> b \<and> b \<le> 143) \<and> cont_byte c \<and> cont_byte d \<and> utf8_valid r)"

fun universal_newlines :: "string \<Rightarrow> string" where
  "universal_newlines [] = []"
| "universal_newlines [c] = [if c = CHR 0x0D then CHR 0x0A else c]"
| "universal_newlines (c # d # cs) =
     (if c = CHR 0x0D
      then (if d = CHR 0x0A then CHR 0x0A # universal_newlines cs
            else CHR 0x0A # universal_newlines (d # cs))
      else c # universal_newlines (d # cs))"

definition text_decode :: "string \<Rightarrow> exn + string" where
  "text_decode bytes =
     (if utf8_valid (map of_char bytes) then Inr (universal_newlines bytes)
      else Inl UnicodeDecodeError)"

text \<open>\<^verbatim>\<open>with open(path, 'r', encoding='utf-8') as f: f.read()\<close>.\<close>

definition read_text :: "filesystem \<Rightarrow> string \<Rightarrow> exn + string" where
  "read_text fs p =
     (case open_read fs p of Inl e \<Rightarrow> Inl e | Inr bytes \<Rightarrow> text_decode bytes)"

section \<open>The json module\<close>

text \<open>
  \<^verbatim>\<open>json.loads\<close> and \<^verbatim>\<open>json.dumps\<close> belong to Python's library, not to the program; they
  are a parameter of the model. \<open>json_loads\<close> gives the object a text parses to, or
  \<open>None\<close> where Python raises; \<open>json_dumps indent\<close> stands for
  \<^verbatim>\<open>json.dumps(obj, indent=indent)\<close>. \<^verbatim>\<open>json.load(f)\<close> is \<^verbatim>\<open>json.loads(f.read())\<close>, and
  \<^verbatim>\<open>json.dump(obj, f, indent=2)\<close> writes what \<^verbatim>\<open>json.dumps(obj, indent=2)\<close> returns.
\<close>

record json_module =
  json_loads :: "string \<Rightarrow> json option"
  json_dumps :: "nat \<Rightarrow> json \<Rightarrow> string"

definition json_load :: "json_module \<Rightarrow> filesystem \<Rightarrow> string \<Rightarrow> exn + json" where
  "json_load J fs p =
     (case read_text fs p of
        Inl e \<Rightarrow> Inl e
      | Inr text \<Rightarrow> (case json_loads J text of None \<Rightarrow> Inl JSONDecodeError | Some v \<Rightarrow> Inr v))"

section \<open>Dicts\<close>

text \<open>\<^verbatim>\<open>d.get(k, default)\<close>, and \<^verbatim>\<open>{**a, **b}\<close>: the entries of \<open>a\<close> in their order, each
  key of \<open>b\<close> overwritten in place or added at the end.\<close>

definition dict_get :: "(string \<times> json) list \<Rightarrow> string \<Rightarrow> json \<Rightarrow> json" where
  "dict_get d k dflt = (case map_of d k of None \<Rightarrow> dflt | Some v \<Rightarrow> v)"

definition dict_merge :: "(string \<times> json) list \<Rightarrow> (string \<times> json) list \<Rightarrow> (string \<times> json) list" where
  "dict_merge a b = fold (\<lambda>(k, v). AList.update k v) b a"

section \<open>Reading and saving the configuration\<close>

definition read_existing_config ::
  "json_module \<Rightarrow> string \<Rightarrow> string \<Rightarrow> filesystem \<Rightarrow> exn + StorageConfig option" where
  "read_existing_config J sysname username fs =
     (let config_path = get_config_path sysname username in
      if os_path_exists fs config_path then
        (case json_load J fs config_path of
           Inl e \<Rightarrow> Inl (AppError ERR_CONFIG ''read_config'' config_path e)
         | Inr (JDict data) \<Rightarrow>
             Inr (Some \<lparr>telemetry_mac_machine_id = dict_get data ''telemetry.macMachineId'' (JStr ''''),
                        telemetry_machine_id = dict_get data ''telemetry.machineId'' (JStr ''''),
                        telemetry_dev_device_id = dict_get data ''telemetry.devDeviceId'' (JStr ''''),
                        telemetry_sqm_id = dict_get data ''telemetry.sqmId'' (JStr '''')\<rparr>)
         | Inr _ \<Rightarrow> Inl (AppError ERR_CONFIG ''read_config'' config_path AttributeError))
      else Inr None)"

text \<open>What \<^verbatim>\<open>log_print\<close> is called with, as far as the properties below tell the
  messages apart.\<close>

datatype event =
    BackupCreated string
  | BackupFailed exn
  | NoUser
  | ProcessesFound "int list"
  | ProcessKilled int
  | CloseManually "int list"
  | ReadingConfig
  | ShowCurrentConfig StorageConfig
  | ConfigNotFound
  | ReadFailed exn
  | GeneratingConfig
  | ShowNewConfig StorageConfig
  | Cancelled
  | SavingConfig
  | Success
  | ErrorMessage exn

definition str_of_int :: "int \<Rightarrow> string" where
  "str_of_int i = (if i < 0 then ''-'' @ str_of_nat (nat (- i)) else str_of_nat (nat i))"

text \<open>\<^verbatim>\<open>f"{config_path}.{int(time.time())}.bak"\<close>; \<open>now\<close> is \<^verbatim>\<open>int(time.time())\<close>.\<close>

definition backup_path_of :: "string \<Rightarrow> int \<Rightarrow> string" where
  "backup_path_of config_path now = config_path @ ''.'' @ str_of_int now @ ''.bak''"

text \<open>
  The backup block: both files are opened, the source is read and written to the
  destination. The result is the exception that left the block, if any, and the file
  system.
\<close>

definition copy_text :: "string \<Rightarrow> string \<Rightarrow> filesystem \<Rightarrow> exn option \<times> filesystem" where
  "copy_text src dst fs =
     (case open_read fs src of
        Inl e \<Rightarrow> (Some e, fs)
      | Inr bytes \<Rightarrow>
          (case open_write dst fs of
             Inl e \<Rightarrow> (Some e, fs)
           | Inr fs1 \<Rightarrow>
               (case text_decode bytes of
                  Inl e \<Rightarrow> (Some e, fs1)
                | Inr text \<Rightarrow> (None, file_write dst text fs1))))"

text \<open>
  \<^verbatim>\<open>save_config\<close>, in the order of the source.
  \<^item> \<^verbatim>\<open>os.makedirs\<close> and, for an existing file, \<^verbatim>\<open>os.chmod\<close> stand outside every \<^verbatim>\<open>try\<close>:
    what they raise leaves the function as it is.
  \<^item> \<open>backup_existing\<close> is the block under \<^verbatim>\<open>if os.path.exists(config_path)\<close>: an
    exception inside the backup's \<^verbatim>\<open>try\<close> is logged and dropped.
  \<^item> \<open>load_original\<close> is the start of the last \<^verbatim>\<open>try\<close>: \<^verbatim>\<open>original_data\<close> is \<^verbatim>\<open>{}\<close>, or
    what \<^verbatim>\<open>json.load\<close> returns when the file exists.
  \<^item> \<^verbatim>\<open>{**original_data, **config.to_dict()}\<close> raises \<^verbatim>\<open>TypeError\<close> unless
    \<^verbatim>\<open>original_data\<close> is a dict. Every exception of the last \<^verbatim>\<open>try\<close> is wrapped into an
    \<^verbatim>\<open>AppError\<close>.

  The result is the exception raised (if any), the file system as it was left and the
  messages logged.
\<close>

definition backup_existing ::
  "string \<Rightarrow> int \<Rightarrow> filesystem \<Rightarrow> exn option \<times> filesystem \<times> event list" where
  "backup_existing config_path now fs =
     (if os_path_exists fs config_path then
        (case os_chmod config_path 438 fs of
           Inl e \<Rightarrow> (Some e, fs, [])
         | Inr fs1 \<Rightarrow>
             (let backup_path = backup_path_of config_path now in
              case copy_text config_path backup_path fs1 of
                (None, fs2) \<Rightarrow> (None, fs2, [BackupCreated backup_path])
              | (Some e, fs2) \<Rightarrow> (None, fs2, [BackupFailed e])))
      else (None, fs, []))"

definition load_original :: "json_module \<Rightarrow> filesystem \<Rightarrow> string \<Rightarrow> exn + json" where
  "load_original J fs config_path =
     (if os_path_exists fs config_path then json_load J fs config_path else Inr (JDict []))"

definition save_config ::
  "json_module \<Rightarrow> string \<Rightarrow> int \<Rightarrow> StorageConfig \<Rightarrow> string \<Rightarrow> filesystem
     \<Rightarrow> exn option \<times> filesystem \<times> event list" where
  "save_config J sysname now config username fs =
     (let config_path = get_config_path sysname username in
      case os_makedirs (os_path_dirname config_path) fs of
        (Some e, fs1) \<Rightarrow> (Some e, fs1, [])
      | (None, fs1) \<Rightarrow>
      case backup_existing config_path now fs1 of
        (Some e, fs2, logged) \<Rightarrow> (Some e, fs2, logged)
      | (None, fs2, logged) \<Rightarrow>
      case load_original J fs2 config_path of
        Inl e \<Rightarrow> (Some (AppError ERR_CONFIG ''save_config'' config_path e), fs2, logged)
      | Inr (JDict original_data) \<Rightarrow>
          (let new_data = dict_merge original_data (to_dict config) in
           case open_write config_path fs2 of
             Inl e \<Rightarrow> (Some (AppError ERR_CONFIG ''save_config'' config_path e), fs2, logged)
           | Inr fs3 \<Rightarrow>
               (None, file_write config_path (json_dumps J 2 (JDict new_data)) fs3, logged))
      | Inr _ \<Rightarrow> (Some (AppError ERR_CONFIG ''save_config'' config_path TypeError), fs2, logged))"

text \<open>
  For stating properties: the JSON value a path holds, whatever the access rights, with
  the empty object for a missing file (as \<^verbatim>\<open>save_config\<close> takes it); and that a document
  written by \<^verbatim>\<open>json.dump\<close> is read back from the file as itself.
\<close>

definition stored_json :: "json_module \<Rightarrow> filesystem \<Rightarrow> string \<Rightarrow> json option" where
  "stored_json J fs p =
     (case fs p of
        None \<Rightarrow> Some (JDict [])
      | Some (Dir w ow) \<Rightarrow> None
      | Some (File c r w ow) \<Rightarrow>
          (case text_decode c of Inl e \<Rightarrow> None | Inr text \<Rightarrow> json_loads J text))"

definition reads_back :: "json_module \<Rightarrow> json \<Rightarrow> bool" where
  "reads_back J doc =
     (case text_decode (json_dumps J 2 doc) of
        Inl e \<Rightarrow> False
      | Inr text \<Rightarrow> json_loads J text = Some doc)"

text \<open>The bytes of the regular file at a path, if there is one.\<close>

definition file_content :: "filesystem \<Rightarrow> string \<Rightarrow> string option" where
  "file_content fs p = (case fs p of Some (File c r w ow) \<Rightarrow> Some c | _ \<Rightarrow> None)"

fun is_dict :: "json \<Rightarrow> bool" where
  "is_dict (JDict d) = True"
| "is_dict v = False"

section \<open>The run of the program\<close>

text \<open>
  The state of a run of \<^verbatim>\<open>main\<close>: the file system, the lines still to come on the
  standard input (\<^verbatim>\<open>input()\<close> takes the first and raises \<^verbatim>\<open>EOFError\<close> when none is
  left) and the random sources. The environment variables, the platform name, the clock
  and the outcome of \<^verbatim>\<open>pgrep -i cursor\<close> are inputs of the run. The screen and the
  session log of \<^verbatim>\<open>logging\<close> are not part of the state; what \<^verbatim>\<open>log_print\<close> is given
  is returned as a list of events. A terminal line is the string of its bytes in UTF-8.
\<close>

record world =
  files :: filesystem
  stdin :: "string list"
  rng :: entropy

text \<open>\<^verbatim>\<open>str.lower\<close> and \<^verbatim>\<open>str.strip\<close> follow the Unicode tables; they are parameters, as
  the \<^verbatim>\<open>json\<close> module is.\<close>

record str_module =
  str_lower :: "string \<Rightarrow> string"
  str_strip :: "string \<Rightarrow> string"

text \<open>
  \<^verbatim>\<open>confirm_action\<close>: ask until the answer, in lower case and stripped, is one of
  \<^verbatim>\<open>y\<close>, \<^verbatim>\<open>yes\<close>, U+662F or \<^verbatim>\<open>n\<close>, \<^verbatim>\<open>no\<close>, U+5426. The result is the answer or the
  exception of \<^verbatim>\<open>input()\<close>, and the lines left.
\<close>

fun confirm_action :: "str_module \<Rightarrow> string list \<Rightarrow> (exn + bool) \<times> string list" where
  "confirm_action T [] = (Inl EOFError, [])"
| "confirm_action T (line # rest) =
     (let response = str_strip T (str_lower T line) in
      if response \<in> set [''y'', ''yes'', [CHR 0xE6, CHR 0x98, CHR 0xAF]] then (Inr True, rest)
      else if response \<in> set [''n'', ''no'', [CHR 0xE5, CHR 0x90, CHR 0xA6]] then (Inr False, rest)
      else confirm_action T rest)"

text \<open>\<^verbatim>\<open>wait_exit\<close>: nothing in automated mode, otherwise one line is read.\<close>

definition wait_exit :: "(string \<rightharpoonup> string) \<Rightarrow> string list \<Rightarrow> exn option \<times> string list" where
  "wait_exit environ lines =
     (if environ ''AUTOMATED_MODE'' = Some ''1'' then (None, lines)
      else case lines of [] \<Rightarrow> (Some EOFError, []) | line # rest \<Rightarrow> (None, rest))"

text \<open>
  \<^verbatim>\<open>get_running_cursor_processes\<close>, given the outcome of
  \<^verbatim>\<open>subprocess.check_output(["pgrep", "-i", "cursor"])\<close>: the process ids printed, or the
  exception raised. \<^verbatim>\<open>CalledProcessError\<close>, which is how \<^verbatim>\<open>pgrep\<close> reports that it found
  nothing, gives the empty list; any other exception leaves the function.
\<close>

definition get_running_cursor_processes :: "exn + int list \<Rightarrow> exn + int list" where
  "get_running_cursor_processes pgrep =
     (case pgrep of
        Inr pids \<Rightarrow> Inr pids
      | Inl e \<Rightarrow> if e = CalledProcessError then Inr [] else Inl e)"

text \<open>
  \<^verbatim>\<open>check_cursor_running\<close>. With no process found, the function ends without a
  \<^verbatim>\<open>return\<close>: its value \<^verbatim>\<open>None\<close> counts as false where \<^verbatim>\<open>main\<close> tests it. \<^verbatim>\<open>kill\<close> is
  taken to run.
\<close>

definition check_cursor_running ::
  "str_module \<Rightarrow> exn + int list \<Rightarrow> string list \<Rightarrow> (exn + bool) \<times> string list \<times> event list" where
  "check_cursor_running T pgrep lines =
     (case get_running_cursor_processes pgrep of
        Inl x \<Rightarrow> (Inl x, lines, [])
      | Inr pids \<Rightarrow>
          if pids \<noteq> [] then
            (let unique_pids = sort (remdups pids) in
             case lines of
               [] \<Rightarrow> (Inl EOFError, [], [ProcessesFound unique_pids])
             | line # rest \<Rightarrow>
                 if str_lower T line = ''y''
                 then (Inr False, rest, ProcessesFound unique_pids # map ProcessKilled unique_pids)
                 else (Inr True, rest, [ProcessesFound unique_pids, CloseManually unique_pids]))
          else (Inr False, lines, []))"

text \<open>
  How a block of \<^verbatim>\<open>main\<close> ends: it goes on with a value, it leaves \<^verbatim>\<open>main\<close> by
  \<^verbatim>\<open>return\<close>, or it raises.
\<close>

datatype 'a flow = Continue 'a | Return | Raise exn

definition is_AppError :: "exn \<Rightarrow> bool" where
  "is_AppError e = (case e of AppError t op p x \<Rightarrow> True | _ \<Rightarrow> False)"

text \<open>
  The inner \<^verbatim>\<open>try\<close> of \<^verbatim>\<open>main\<close>, which reads and shows the current configuration. It goes
  on with the local variable \<^verbatim>\<open>current_config\<close>: \<open>Some\<close> of what was read, or \<open>None\<close>
  when nothing was assigned to it, which is so after the handler of \<^verbatim>\<open>AppError\<close>: the
  assignment \<^verbatim>\<open>current_config = read_existing_config(username)\<close> did not take place and
  the handler assigns nothing.
\<close>

definition read_current_config ::
  "json_module \<Rightarrow> str_module \<Rightarrow> string \<Rightarrow> string \<Rightarrow> world
     \<Rightarrow> StorageConfig option option flow \<times> world \<times> event list" where
  "read_current_config J T sysname username w =
     (case read_existing_config J sysname username (files w) of
        Inr current_config \<Rightarrow>
          (Continue (Some current_config), w,
           [case current_config of Some c \<Rightarrow> ShowCurrentConfig c | None \<Rightarrow> ConfigNotFound])
      | Inl e \<Rightarrow>
          if is_AppError e then
            (case confirm_action T (stdin w) of
               (Inl x, lines) \<Rightarrow> (Raise x, w\<lparr>stdin := lines\<rparr>, [ReadFailed e])
             | (Inr True, lines) \<Rightarrow> (Continue None, w\<lparr>stdin := lines\<rparr>, [ReadFailed e])
             | (Inr False, lines) \<Rightarrow> (Return, w\<lparr>stdin := lines\<rparr>, [ReadFailed e]))
          else (Raise e, w, []))"

text \<open>
  The outer \<^verbatim>\<open>try\<close> block of \<^verbatim>\<open>main\<close>. Reading \<^verbatim>\<open>current_config\<close> when nothing was
  assigned to it raises \<^verbatim>\<open>UnboundLocalError\<close>, before \<^verbatim>\<open>new_storage_config\<close> is called.
  \<open>Success\<close> stands for the two closing messages.
\<close>

definition main_try ::
  "json_module \<Rightarrow> str_module \<Rightarrow> string \<Rightarrow> int \<Rightarrow> (string \<rightharpoonup> string) \<Rightarrow> string \<Rightarrow> world
     \<Rightarrow> unit flow \<times> world \<times> event list" where
  "main_try J T sysname now environ username w =
     (case read_current_config J T sysname username w of
        (Raise x, w1, shown) \<Rightarrow> (Raise x, w1, ReadingConfig # shown)
      | (Return, w1, shown) \<Rightarrow> (Return, w1, ReadingConfig # shown)
      | (Continue None, w1, shown) \<Rightarrow>
          (Raise UnboundLocalError, w1, ReadingConfig # shown @ [GeneratingConfig])
      | (Continue (Some current_config), w1, shown) \<Rightarrow>
          (case new_storage_config current_config (rng w1) of (new_config, e1) \<Rightarrow>
           let w2 = w1\<lparr>rng := e1\<rparr>;
               generated = ReadingConfig # shown @ [GeneratingConfig, ShowNewConfig new_config]
           in case confirm_action T (stdin w2) of
                (Inl x, lines) \<Rightarrow> (Raise x, w2\<lparr>stdin := lines\<rparr>, generated)
              | (Inr False, lines) \<Rightarrow>
                  (case wait_exit environ lines of
                     (Some x, lines') \<Rightarrow> (Raise x, w2\<lparr>stdin := lines'\<rparr>, generated @ [Cancelled])
                   | (None, lines') \<Rightarrow> (Return, w2\<lparr>stdin := lines'\<rparr>, generated @ [Cancelled]))
              | (Inr True, lines) \<Rightarrow>
                  (case save_config J sysname now new_config username (files w2) of
                     (Some x, fs', saved) \<Rightarrow>
                       (Raise x, w2\<lparr>stdin := lines, files := fs'\<rparr>,
                        generated @ SavingConfig # saved)
                   | (None, fs', saved) \<Rightarrow>
                       (Continue (), w2\<lparr>stdin := lines, files := fs'\<rparr>,
                        generated @ SavingConfig # saved @ [Success]))))"

text \<open>
  \<^verbatim>\<open>main\<close>: the user name, the check for running instances, the \<^verbatim>\<open>try\<close> block with its
  handler \<^verbatim>\<open>except Exception\<close>, which prints the exception, and the wait at the end. The
  result is the exception that leaves \<^verbatim>\<open>main\<close>, if any, the state, and the events.
\<close>

definition main ::
  "json_module \<Rightarrow> str_module \<Rightarrow> string \<Rightarrow> int \<Rightarrow> (string \<rightharpoonup> string) \<Rightarrow> exn + int list
     \<Rightarrow> world \<Rightarrow> exn option \<times> world \<times> event list" where
  "main J T sysname now environ pgrep w =
     (case environ ''USER'' of
        None \<Rightarrow> (None, w, [NoUser])
      | Some username \<Rightarrow>
          if username = [] then (None, w, [NoUser])
          else
            (case check_cursor_running T pgrep (stdin w) of
               (Inl x, lines, found) \<Rightarrow> (Some x, w\<lparr>stdin := lines\<rparr>, found)
             | (Inr True, lines, found) \<Rightarrow>
                 (case wait_exit environ lines of
                    (r, lines') \<Rightarrow> (r, w\<lparr>stdin := lines'\<rparr>, found))
             | (Inr False, lines, found) \<Rightarrow>
                 (case main_try J T sysname now environ username (w\<lparr>stdin := lines\<rparr>) of
                    (Return, w1, logged) \<Rightarrow> (None, w1, found @ logged)
                  | (ended, w1, logged) \<Rightarrow>
                      (let printed = (case ended of Raise x \<Rightarrow> [ErrorMessage x] | _ \<Rightarrow> []) in
                       if environ ''AUTOMATED_MODE'' \<noteq> Some ''1'' then
                         (case wait_exit environ (stdin w1) of
                            (r, lines') \<Rightarrow> (r, w1\<lparr>stdin := lines'\<rparr>, found @ logged @ printed))
                       else (None, w1, found @ logged @ printed)))))"

section \<open>A reader and writer for a fragment of JSON\<close>

text \<open>
  To instantiate the \<open>json_module\<close> parameter at concrete inputs: a writer in the layout
  of \<^verbatim>\<open>json.dumps(obj, indent=n)\<close> and a recursive-descent reader, for \<^verbatim>\<open>null\<close>, the
  booleans, integers, strings (with the escapes \<^verbatim>\<open>\"\<close> and \<^verbatim>\<open>\\\<close> only), lists and
  dicts. Floats are outside the fragment: the writer prints \<^verbatim>\<open>NaN\<close> for each, which the
  reader rejects. The reader's recursion is bounded by the length of its input.
\<close>

definition spaces :: "nat \<Rightarrow> string" where
  "spaces n = replicate n (CHR '' '')"

fun write_str_body :: "string \<Rightarrow> string" where
  "write_str_body [] = []"
| "write_str_body (c # cs) =
     (if c = CHR 0x22 \<or> c = CHR 0x5C then CHR 0x5C # c # write_str_body cs
      else c # write_str_body cs)"

definition write_str :: "string \<Rightarrow> string" where
  "write_str s = CHR 0x22 # write_str_body s @ [CHR 0x22]"

fun write_value :: "nat \<Rightarrow> nat \<Rightarrow> json \<Rightarrow> string"
  and write_items :: "nat \<Rightarrow> nat \<Rightarrow> json list \<Rightarrow> string"
  and write_members :: "nat \<Rightarrow> nat \<Rightarrow> (string \<times> json) list \<Rightarrow> string" where
  "write_value ind lvl JNull = ''null''"
| "write_value ind lvl (JBool b) = (if b then ''true'' else ''false'')"
| "write_value ind lvl (JInt i) = str_of_int i"
| "write_value ind lvl (JFloat w) = ''NaN''"
| "write_value ind lvl (JStr s) = write_str s"
| "write_value ind lvl (JList xs) =
     (if xs = [] then ''[]''
      else ''['' @ write_items ind (Suc lvl) xs @ [CHR 0x0A] @ spaces (ind * lvl) @ '']'')"
| "write_value ind lvl (JDict kvs) =
     (if kvs = [] then ''{}''
      else ''{'' @ write_members ind (Suc lvl) kvs @ [CHR 0x0A] @ spaces (ind * lvl) @ ''}'')"
| "write_items ind lvl [] = []"
| "write_items ind lvl (x # xs) =
     [CHR 0x0A] @ spaces (ind * lvl) @ write_value ind lvl x
       @ (if xs = [] then [] else '','' @ write_items ind lvl xs)"
| "write_members ind lvl [] = []"
| "write_members ind lvl (kv # kvs) =
     [CHR 0x0A] @ spaces (ind * lvl) @ write_str (fst kv) @ '': '' @ write_value ind lvl (snd kv)
       @ (if kvs = [] then [] else '','' @ write_members ind lvl kvs)"

definition is_ws :: "char \<Rightarrow> bool" where
  "is_ws c = (c = CHR '' '' \<or> c = CHR 0x0A \<or> c = CHR 0x0D \<or> c = CHR 0x09)"

definition skip_ws :: "string \<Rightarrow> string" where
  "skip_ws s = dropWhile is_ws s"

definition is_digit :: "char \<Rightarrow> bool" where
  "is_digit c = (c \<in> set digits)"

definition nat_of_digits :: "string \<Rightarrow> nat" where
  "nat_of_digits ds = foldl (\<lambda>a c. 10 * a + (of_char c - 48)) 0 ds"

text \<open>An integer literal: \<^verbatim>\<open>-?(0|[1-9][0-9]*)\<close>, not followed by a fraction or exponent.\<close>

definition read_int :: "string \<Rightarrow> (json \<times> string) option" where
  "read_int s =
     (let neg = (s \<noteq> [] \<and> hd s = CHR ''-'');
          t = (if neg then tl s else s);
          ds = takeWhile is_digit t;
          r = dropWhile is_digit t
      in if ds = [] \<or> (hd ds = CHR ''0'' \<and> length ds > 1)
            \<or> (r \<noteq> [] \<and> hd r \<in> set ''.eE'') then None
         else Some (JInt (if neg then - int (nat_of_digits ds) else int (nat_of_digits ds)), r))"

text \<open>The body of a string literal, after the opening quote.\<close>

fun read_str :: "string \<Rightarrow> (string \<times> string) option" where
  "read_str [] = None"
| "read_str [c] = (if c = CHR 0x22 then Some ([], []) else None)"
| "read_str (c # d # cs) =
     (if c = CHR 0x22 then Some ([], d # cs)
      else if c = CHR 0x5C then
        (if d = CHR 0x22 \<or> d = CHR 0x5C
         then (case read_str cs of None \<Rightarrow> None | Some (s, r) \<Rightarrow> Some (d # s, r))
         else None)
      else if (of_char c :: nat) < 32 then None
      else (case read_str (d # cs) of None \<Rightarrow> None | Some (s, r) \<Rightarrow> Some (c # s, r)))"

fun read_value :: "nat \<Rightarrow> string \<Rightarrow> (json \<times> string) option"
  and read_items :: "nat \<Rightarrow> json list \<Rightarrow> string \<Rightarrow> (json \<times> string) option"
  and read_members :: "nat \<Rightarrow> (string \<times> json) list \<Rightarrow> string \<Rightarrow> (json \<times> string) option" where
  "read_value 0 s = None"
| "read_value (Suc n) s =
     (let t = skip_ws s in
      if take 4 t = ''null'' then Some (JNull, drop 4 t)
      else if take 4 t = ''true'' then Some (JBool True, drop 4 t)
      else if take 5 t = ''false'' then Some (JBool False, drop 5 t)
      else if take 1 t = [CHR 0x22] then
        (case read_str (drop 1 t) of None \<Rightarrow> None | Some (x, r) \<Rightarrow> Some (JStr x, r))
      else if take 1 t = ''['' then
        (if take 1 (skip_ws (drop 1 t)) = '']'' then Some (JList [], drop 1 (skip_ws (drop 1 t)))
         else read_items n [] (drop 1 t))
      else if take 1 t = ''{'' then
        (if take 1 (skip_ws (drop 1 t)) = ''}'' then Some (JDict [], drop 1 (skip_ws (drop 1 t)))
         else read_members n [] (drop 1 t))
      else read_int t)"
| "read_items 0 acc s = None"
| "read_items (Suc n) acc s =
     (case read_value n s of
        None \<Rightarrow> None
      | Some (v, r) \<Rightarrow>
          (let t = skip_ws r in
           if take 1 t = '','' then read_items n (acc @ [v]) (drop 1 t)
           else if take 1 t = '']'' then Some (JList (acc @ [v]), drop 1 t)
           else None))"
| "read_members 0 acc s = None"
| "read_members (Suc n) acc s =
     (let t = skip_ws s in
      if take 1 t = [CHR 0x22] then
        (case read_str (drop 1 t) of
           None \<Rightarrow> None
         | Some (k, r) \<Rightarrow>
             (let u = skip_ws r in
              if take 1 u = '':'' then
                (case read_value n (drop 1 u) of
                   None \<Rightarrow> None
                 | Some (v, r') \<Rightarrow>
                     (let w = skip_ws r' in
                      if take 1 w = '','' then read_members n (AList.update k v acc) (drop 1 w)
                      else if take 1 w = ''}'' then Some (JDict (AList.update k v acc), drop 1 w)
                      else None))
              else None))
      else None)"

definition read_json :: "string \<Rightarrow> json option" where
  "read_json s =
     (case read_value (Suc (length s)) s of
        None \<Rightarrow> None
      | Some (v, r) \<Rightarrow> if skip_ws r = [] then Some v else None)"

definition fragment_json :: json_module where
  "fragment_json = \<lparr>json_loads = read_json, json_dumps = (\<lambda>ind. write_value ind 0)\<rparr>"





section \<open>Example inputs\<close>

text \<open>Concrete inputs at which the theorems below are instantiated.\<close>

definition example_old_config :: StorageConfig where
  "example_old_config = \<lparr>telemetry_mac_machine_id = JStr ''m'', telemetry_machine_id = JStr ''x'',
            telemetry_dev_device_id = JStr ''d'', telemetry_sqm_id = JStr ''X''\<rparr>"
definition example_entropy :: entropy where
  "example_entropy = \<lparr>urandom_bytes = word_of_nat, random_draws = (\<lambda>i. 7 * i + 3)\<rparr>"

text \<open>
  A home directory \<^verbatim>\<open>/home/u\<close> in which the program has never run, and one in which its
  configuration file exists with a given content. The configuration path on Linux for
  the user \<^verbatim>\<open>u\<close> is \<^verbatim>\<open>/home/u/.config/Cursor/User/globalStorage/storage.json\<close>.
\<close>

definition example_home :: filesystem where
  "example_home =
     (\<lambda>p. None)(''/'' \<mapsto> Dir False False, ''/home'' \<mapsto> Dir False False,
       ''/home/u'' \<mapsto> Dir True True)"

definition example_installed :: "string \<Rightarrow> filesystem" where
  "example_installed c =
     example_home(''/home/u/.config'' \<mapsto> Dir True True,
       ''/home/u/.config/Cursor'' \<mapsto> Dir True True,
       ''/home/u/.config/Cursor/User'' \<mapsto> Dir True True,
       ''/home/u/.config/Cursor/User/globalStorage'' \<mapsto> Dir True True,
       ''/home/u/.config/Cursor/User/globalStorage/storage.json'' \<mapsto> File c True True True)"

definition example_config :: StorageConfig where
  "example_config = \<lparr>telemetry_mac_machine_id = JStr ''a1'', telemetry_machine_id = JStr ''b2'',
                      telemetry_dev_device_id = JStr ''c3'', telemetry_sqm_id = JStr ''d4''\<rparr>"

definition example_document :: "(string \<times> json) list" where
  "example_document = [(''theme'', JStr ''dark''), (''telemetry.sqmId'', JStr ''old'')]"


chapter \<open>Properties\<close>

section \<open>Properties of the generators\<close>


lemma length_hexdigits: "length hexdigits = 16"
  by (simp add: hexdigits_def)

lemma hexdigit_mem: "n < 16 \<Longrightarrow> hexdigits ! n \<in> set hexdigits"
  by (simp add: length_hexdigits)

lemma unat_byte_div16: "unat (b :: byte) div 16 < 16"
proof -
  have "unat b < 256" using unsigned_less [of b] by simp
  then show ?thesis by simp
qed

lemma hex_of_byte_length: "length (hex_of_byte b) = 2"
  by (simp add: hex_of_byte_def)

lemma hex_of_byte_chars: "set (hex_of_byte b) \<subseteq> set hexdigits"
  using hexdigit_mem [OF unat_byte_div16 [of b]] hexdigit_mem [of "unat b mod 16"]
  by (simp add: hex_of_byte_def)

lemma bytes_hex_length: "length (bytes_hex bs) = 2 * length bs"
  by (induction bs) (simp_all add: bytes_hex_def hex_of_byte_length)

lemma bytes_hex_chars: "set (bytes_hex bs) \<subseteq> set hexdigits"
  using hex_of_byte_chars by (auto simp: bytes_hex_def)

lemma hex_value_digit: "n < 16 \<Longrightarrow> hex_value (hexdigits ! n) = Some n"
  by (auto simp: less_Suc_eq eval_nat_numeral hex_value_def hexdigits_def)

lemma byte_of_nibbles: "word_of_nat (16 * (unat b div 16) + unat b mod 16) = (b :: byte)"
  by simp

lemma hex_decode_bytes_hex: "hex_decode (bytes_hex bs) = Some bs"
proof (induction bs)
  case Nil
  then show ?case by (simp add: bytes_hex_def)
next
  case (Cons b bs)
  have "hex_value (hexdigits ! (unat b div 16)) = Some (unat b div 16)"
    by (rule hex_value_digit [OF unat_byte_div16])
  moreover have "hex_value (hexdigits ! (unat b mod 16)) = Some (unat b mod 16)"
    by (rule hex_value_digit) simp
  ultimately show ?case
    using Cons.IH by (simp add: bytes_hex_def hex_of_byte_def del: of_nat_add of_nat_mult)
qed

lemma sha_compress_length: "length (sha_compress hs b) = 8"
  by (simp add: sha_compress_def Let_def split: prod.splits)

lemma foldl_sha_compress_length:
  "length hs = 8 \<Longrightarrow> length (foldl sha_compress hs bs) = 8"
  by (induction bs arbitrary: hs) (simp_all add: sha_compress_length)

lemma concat_be_bytes32_length: "length (concat (map be_bytes32 ws)) = 4 * length ws"
  by (induction ws) (simp_all add: be_bytes32_def)

lemma primes_below_20: "primes_below 20 = [2, 3, 5, 7, 11, 13, 17, 19]"
  by code_simp

lemma sha256_H0_length: "length sha256_H0 = 8"
  by (simp add: sha256_H0_def primes_below_20)

lemma sha256_length: "length (sha256 m) = 32"
  by (simp add: sha256_def Let_def concat_be_bytes32_length foldl_sha_compress_length
      sha256_H0_length)

lemma sha256_hexdigest_format: "is_lower_hex64 (sha256_hexdigest m)"
  using bytes_hex_chars [of "sha256 m"]
  by (auto simp: is_lower_hex64_def sha256_hexdigest_def bytes_hex_length sha256_length list_all_iff)

lemma machine_id_alphabet_eq: "machine_id_alphabet = ''ABCDEFGHIJKLMNOPQRSTUVWXYZ23456789''"
  by (simp add: machine_id_alphabet_def ascii_uppercase_def digits_def str_remove_def)

lemma random_choices_length: "length (fst (random_choices p k e)) = k"
  by (simp add: random_choices_def)

lemma random_choices_set: "p \<noteq> [] \<Longrightarrow> set (fst (random_choices p k e)) \<subseteq> set p"
  by (auto simp: random_choices_def)

lemma random_randint_range: "a \<le> b \<Longrightarrow> a \<le> fst (random_randint a b e) \<and> fst (random_randint a b e) \<le> b"
proof -
  assume ab: "a \<le> b"
  have "random_draws e 0 mod nat (b - a + 1) < nat (b - a + 1)"
    using ab by (intro mod_less_divisor) simp
  then have "int (random_draws e 0 mod nat (b - a + 1)) < int (nat (b - a + 1))"
    by (simp only: of_nat_less_iff)
  then show ?thesis using ab by (simp add: random_randint_def)
qed

lemma format_02d_two_digits:
  "0 \<le> n \<Longrightarrow> n \<le> 99 \<Longrightarrow>
   format_02d n = [digit_char (nat n div 10), digit_char (nat n mod 10)] \<and> nat n div 10 < 10"
  by (auto simp: format_02d_def zero_pad_def digit_char_def)


text \<open>
  Claim C7. Every value returned by \<^verbatim>\<open>generate_machine_id\<close> hex-decodes to the bytes of
  \<^verbatim>\<open>auth0|user_\<close>, then two decimal digits (the number 00 to 99, zero-padded), then 23
  characters of the alphabet A-Z, 2-9; the digits 0 and 1 never occur among the 23.
\<close>

theorem generate_machine_id_format:
  "\<exists>d1 d0 unique_id.
     hex_decode (fst (generate_machine_id e))
       = Some (str_encode (''auth0|user_'' @ [digit_char d1, digit_char d0] @ unique_id))
     \<and> d1 < 10 \<and> d0 < 10
     \<and> length unique_id = 23
     \<and> list_all (\<lambda>c. c \<in> set ''ABCDEFGHIJKLMNOPQRSTUVWXYZ23456789'') unique_id
     \<and> CHR ''0'' \<notin> set unique_id \<and> CHR ''1'' \<notin> set unique_id"
proof -
  obtain n e1 where r: "random_randint 0 99 e = (n, e1)"
    by (cases "random_randint 0 99 e")
  obtain u e2 where c: "random_choices machine_id_alphabet 23 e1 = (u, e2)"
    by (cases "random_choices machine_id_alphabet 23 e1")
  have n: "0 \<le> n \<and> n \<le> 99"
    using random_randint_range [of 0 99 e] r by simp
  have f: "format_02d n = [digit_char (nat n div 10), digit_char (nat n mod 10)]"
    and d1: "nat n div 10 < 10"
    using format_02d_two_digits [of n] n by simp_all
  have len: "length u = 23"
    using random_choices_length [of machine_id_alphabet 23 e1] c by simp
  have sub: "set u \<subseteq> set ''ABCDEFGHIJKLMNOPQRSTUVWXYZ23456789''"
    using random_choices_set [of machine_id_alphabet 23 e1] c
    by (simp add: machine_id_alphabet_eq)
  have id: "fst (generate_machine_id e)
      = bytes_hex (str_encode (''auth0|user_'' @ [digit_char (nat n div 10), digit_char (nat n mod 10)] @ u))"
    by (simp add: generate_machine_id_def r c f)
  have all: "list_all (\<lambda>c. c \<in> set ''ABCDEFGHIJKLMNOPQRSTUVWXYZ23456789'') u"
    using sub unfolding list_all_iff by blast
  have "CHR ''0'' \<notin> set ''ABCDEFGHIJKLMNOPQRSTUVWXYZ23456789''"
    and "CHR ''1'' \<notin> set ''ABCDEFGHIJKLMNOPQRSTUVWXYZ23456789''"
    by simp_all
  with sub have no0: "CHR ''0'' \<notin> set u" and no1: "CHR ''1'' \<notin> set u"
    by blast+
  show ?thesis
    apply (rule exI [of _ "nat n div 10"], rule exI [of _ "nat n mod 10"], rule exI [of _ u])
    using id d1 len all no0 no1 by (simp add: hex_decode_bytes_hex)
qed

lemma generate_mac_machine_id_fst:
  "fst (generate_mac_machine_id e) = sha256_hexdigest (map (urandom_bytes e) [0..<32])"
  by (simp add: generate_mac_machine_id_def os_urandom_def)

lemma generate_mac_machine_id_hex64: "is_lower_hex64 (fst (generate_mac_machine_id e))"
  by (simp add: generate_mac_machine_id_fst sha256_hexdigest_format)

lemma is_lower_hex64_nonempty: "is_lower_hex64 s \<Longrightarrow> s \<noteq> []"
  by (auto simp: is_lower_hex64_def)

lemma generate_machine_id_nonempty: "fst (generate_machine_id e) \<noteq> []"
  by (simp add: generate_machine_id_def bytes_hex_def hex_of_byte_def str_encode_def
      split: prod.splits)

lemma generate_dev_device_id_nonempty: "fst (generate_dev_device_id e) \<noteq> []"
  by (simp add: generate_dev_device_id_def uuid_str_def Let_def split: prod.splits)

lemma new_storage_config_regenerated:
  "telemetry_mac_machine_id (fst (new_storage_config old e)) = JStr (fst (generate_mac_machine_id e))
   \<and> telemetry_machine_id (fst (new_storage_config old e))
       = JStr (fst (generate_machine_id (snd (generate_mac_machine_id e))))
   \<and> telemetry_dev_device_id (fst (new_storage_config old e))
       = JStr (fst (generate_dev_device_id (snd (generate_machine_id (snd (generate_mac_machine_id e))))))"
  by (simp add: new_storage_config_def Let_def split: prod.splits option.splits)

lemma new_storage_config_sqm:
  "telemetry_sqm_id (fst (new_storage_config old e)) =
     (if keeps_sqm_id old then telemetry_sqm_id (the old)
      else JStr (fst (generate_mac_machine_id
             (snd (generate_dev_device_id (snd (generate_machine_id (snd (generate_mac_machine_id e)))))))))"
  by (simp add: new_storage_config_def keeps_sqm_id_def Let_def split: prod.splits option.splits)

text \<open>
  Claim C8. Every value returned by \<^verbatim>\<open>generate_mac_machine_id\<close> is 64 lowercase
  hexadecimal digits, the hexadecimal SHA-256 digest of 32 bytes from \<^verbatim>\<open>os.urandom\<close>; so
  is every generated \<^verbatim>\<open>macMachineId\<close>, and every \<^verbatim>\<open>sqmId\<close> generated afresh (for no old
  configuration, or for one with the empty string as its \<^verbatim>\<open>sqmId\<close>).
\<close>

theorem generate_mac_machine_id_format:
  "is_lower_hex64 (fst (generate_mac_machine_id e))
   \<and> (\<exists>data. length data = 32 \<and> fst (generate_mac_machine_id e) = bytes_hex (sha256 data))
   \<and> (\<exists>m. telemetry_mac_machine_id (fst (new_storage_config old e)) = JStr m \<and> is_lower_hex64 m)
   \<and> (\<exists>s. telemetry_sqm_id (fst (new_storage_config None e)) = JStr s \<and> is_lower_hex64 s)
   \<and> (\<exists>s. telemetry_sqm_id (fst (new_storage_config (Some (c\<lparr>telemetry_sqm_id := JStr []\<rparr>)) e)) = JStr s
          \<and> is_lower_hex64 s)"
proof (intro conjI)
  show "is_lower_hex64 (fst (generate_mac_machine_id e))"
    by (rule generate_mac_machine_id_hex64)
  show "\<exists>data. length data = 32 \<and> fst (generate_mac_machine_id e) = bytes_hex (sha256 data)"
    by (rule exI [of _ "map (urandom_bytes e) [0..<32]"])
       (simp add: generate_mac_machine_id_fst sha256_hexdigest_def)
  show "\<exists>m. telemetry_mac_machine_id (fst (new_storage_config old e)) = JStr m \<and> is_lower_hex64 m"
    by (simp add: new_storage_config_regenerated generate_mac_machine_id_hex64)
  show "\<exists>s. telemetry_sqm_id (fst (new_storage_config None e)) = JStr s \<and> is_lower_hex64 s"
    by (simp add: new_storage_config_sqm keeps_sqm_id_def generate_mac_machine_id_hex64)
  show "\<exists>s. telemetry_sqm_id (fst (new_storage_config (Some (c\<lparr>telemetry_sqm_id := JStr []\<rparr>)) e)) = JStr s
          \<and> is_lower_hex64 s"
    by (simp add: new_storage_config_sqm keeps_sqm_id_def generate_mac_machine_id_hex64)
qed

text \<open>
  Claim C1. \<^verbatim>\<open>new_storage_config\<close> keeps the old \<^verbatim>\<open>sqmId\<close> unchanged when an old
  configuration is given and its \<^verbatim>\<open>sqmId\<close> is non-empty (true, in Python's sense; for a
  string that is: not the empty string). When the old configuration is absent or its
  \<^verbatim>\<open>sqmId\<close> is empty, the new \<^verbatim>\<open>sqmId\<close> is what \<^verbatim>\<open>generate_mac_machine_id\<close> returns
  next, 64 lowercase hexadecimal digits. In both cases the other three fields are what
  the three generators return, whatever the old configuration holds, and all four
  fields are non-empty.
\<close>

theorem new_storage_config_fields:
  "(\<forall>c. old = Some c \<and> py_truthy (telemetry_sqm_id c)
        \<longrightarrow> telemetry_sqm_id (fst (new_storage_config old e)) = telemetry_sqm_id c)
   \<and> (old = None \<or> (\<exists>c. old = Some c \<and> \<not> py_truthy (telemetry_sqm_id c))
        \<longrightarrow> telemetry_sqm_id (fst (new_storage_config old e))
              = JStr (fst (generate_mac_machine_id
                  (snd (generate_dev_device_id (snd (generate_machine_id (snd (generate_mac_machine_id e))))))))
            \<and> is_lower_hex64 (fst (generate_mac_machine_id
                  (snd (generate_dev_device_id (snd (generate_machine_id (snd (generate_mac_machine_id e)))))))))
   \<and> telemetry_mac_machine_id (fst (new_storage_config old e)) = JStr (fst (generate_mac_machine_id e))
   \<and> telemetry_machine_id (fst (new_storage_config old e))
       = JStr (fst (generate_machine_id (snd (generate_mac_machine_id e))))
   \<and> telemetry_dev_device_id (fst (new_storage_config old e))
       = JStr (fst (generate_dev_device_id (snd (generate_machine_id (snd (generate_mac_machine_id e))))))
   \<and> py_truthy (telemetry_mac_machine_id (fst (new_storage_config old e)))
   \<and> py_truthy (telemetry_machine_id (fst (new_storage_config old e)))
   \<and> py_truthy (telemetry_dev_device_id (fst (new_storage_config old e)))
   \<and> py_truthy (telemetry_sqm_id (fst (new_storage_config old e)))"
proof -
  have keep: "\<forall>c. old = Some c \<and> py_truthy (telemetry_sqm_id c)
        \<longrightarrow> telemetry_sqm_id (fst (new_storage_config old e)) = telemetry_sqm_id c"
    by (simp add: new_storage_config_sqm keeps_sqm_id_def)
  have fresh: "old = None \<or> (\<exists>c. old = Some c \<and> \<not> py_truthy (telemetry_sqm_id c))
        \<longrightarrow> telemetry_sqm_id (fst (new_storage_config old e))
              = JStr (fst (generate_mac_machine_id
                  (snd (generate_dev_device_id (snd (generate_machine_id (snd (generate_mac_machine_id e))))))))"
    by (auto simp: new_storage_config_sqm keeps_sqm_id_def)
  have sqm: "py_truthy (telemetry_sqm_id (fst (new_storage_config old e)))"
    using is_lower_hex64_nonempty [OF generate_mac_machine_id_hex64]
    by (cases old) (simp_all add: new_storage_config_sqm keeps_sqm_id_def)
  have mac: "py_truthy (telemetry_mac_machine_id (fst (new_storage_config old e)))"
    using is_lower_hex64_nonempty [OF generate_mac_machine_id_hex64]
    by (simp add: new_storage_config_regenerated)
  have others: "py_truthy (telemetry_machine_id (fst (new_storage_config old e)))"
    "py_truthy (telemetry_dev_device_id (fst (new_storage_config old e)))"
    by (simp_all add: new_storage_config_regenerated generate_machine_id_nonempty
        generate_dev_device_id_nonempty)
  show ?thesis
    using keep fresh sqm mac others new_storage_config_regenerated [of old e]
      generate_mac_machine_id_hex64 by blast
qed

theorem new_storage_config_fields_witness:
  "py_truthy (telemetry_sqm_id example_old_config)
   \<and> telemetry_sqm_id (fst (new_storage_config (Some example_old_config) example_entropy)) = JStr ''X''
   \<and> telemetry_sqm_id (fst (new_storage_config None example_entropy))
       = JStr (fst (generate_mac_machine_id
           (snd (generate_dev_device_id (snd (generate_machine_id (snd (generate_mac_machine_id example_entropy))))))))
   \<and> \<not> py_truthy (telemetry_sqm_id (example_old_config\<lparr>telemetry_sqm_id := JStr []\<rparr>))
   \<and> telemetry_sqm_id (fst (new_storage_config (Some (example_old_config\<lparr>telemetry_sqm_id := JStr []\<rparr>)) example_entropy))
       = JStr (fst (generate_mac_machine_id
           (snd (generate_dev_device_id (snd (generate_machine_id (snd (generate_mac_machine_id example_entropy))))))))"
  using new_storage_config_fields [of "Some example_old_config" example_entropy] new_storage_config_fields [of None example_entropy]
    new_storage_config_fields [of "Some (example_old_config\<lparr>telemetry_sqm_id := JStr []\<rparr>)" example_entropy]
  by (simp add: example_old_config_def)

section \<open>Properties of paths and of the file system\<close>

lemma dict_merge_to_dict:
  "dict_merge d (to_dict c) =
     AList.update ''telemetry.sqmId'' (telemetry_sqm_id c)
       (AList.update ''telemetry.devDeviceId'' (telemetry_dev_device_id c)
         (AList.update ''telemetry.machineId'' (telemetry_machine_id c)
           (AList.update ''telemetry.macMachineId'' (telemetry_mac_machine_id c) d)))"
  by (simp add: dict_merge_def to_dict_def)

lemma map_of_dict_merge_to_dict:
  "map_of (dict_merge d (to_dict c)) k =
     (if k = ''telemetry.sqmId'' then Some (telemetry_sqm_id c)
      else if k = ''telemetry.devDeviceId'' then Some (telemetry_dev_device_id c)
      else if k = ''telemetry.machineId'' then Some (telemetry_machine_id c)
      else if k = ''telemetry.macMachineId'' then Some (telemetry_mac_machine_id c)
      else map_of d k)"
  by (simp add: dict_merge_to_dict update_conv')

lemma dict_get_merged:
  "dict_get (dict_merge d (to_dict c)) ''telemetry.macMachineId'' x = telemetry_mac_machine_id c"
  "dict_get (dict_merge d (to_dict c)) ''telemetry.machineId'' x = telemetry_machine_id c"
  "dict_get (dict_merge d (to_dict c)) ''telemetry.devDeviceId'' x = telemetry_dev_device_id c"
  "dict_get (dict_merge d (to_dict c)) ''telemetry.sqmId'' x = telemetry_sqm_id c"
  by (simp_all add: dict_get_def map_of_dict_merge_to_dict)

lemma os_mkdir_Inr:
  "os_mkdir name fs = Inr fs' \<Longrightarrow> fs name = None \<and> fs' = fs(name \<mapsto> Dir True True)"
  by (auto simp: os_mkdir_def split: if_splits option.splits node.splits)

lemma mkdir_exist_ok_frame:
  "mkdir_exist_ok name fs = (r, fs') \<Longrightarrow>
     fs' = fs \<or> (fs name = None \<and> fs' = fs(name \<mapsto> Dir True True))"
  by (auto simp: mkdir_exist_ok_def split: sum.splits if_splits dest: os_mkdir_Inr)

lemma mkdir_exist_ok_isdir:
  "mkdir_exist_ok name fs = (None, fs') \<Longrightarrow> os_path_isdir fs' name"
  by (auto simp: mkdir_exist_ok_def os_path_isdir_def split: sum.splits if_splits dest: os_mkdir_Inr)

lemma path_split_length:
  "path_split p = (h, t) \<Longrightarrow> length h + length t \<le> length p"
proof -
  assume sp: "path_split p = (h, t)"
  have strip: "length (rstrip_sep x) \<le> length x" for x
    using length_dropWhile_le [of "\<lambda>c. c = CHR ''/''" "rev x"] by (simp add: rstrip_sep_def)
  have "length (takeWhile (\<lambda>c. c \<noteq> CHR ''/'') (rev p)
      @ dropWhile (\<lambda>c. c \<noteq> CHR ''/'') (rev p)) = length (rev p)"
    by (simp only: takeWhile_dropWhile_id)
  then have parts: "length (takeWhile (\<lambda>c. c \<noteq> CHR ''/'') (rev p))
      + length (dropWhile (\<lambda>c. c \<noteq> CHR ''/'') (rev p)) = length p"
    by (simp only: length_append length_rev)
  show ?thesis
    using sp parts strip [of "rev (dropWhile (\<lambda>c. c \<noteq> CHR ''/'') (rev p))"]
    by (auto simp: path_split_def Let_def split: if_splits)
qed

lemma os_makedirs_frame:
  "os_makedirs name fs = (r, fs') \<Longrightarrow>
     fs' p = fs p \<or> (fs p = None \<and> fs' p = Some (Dir True True) \<and> length p \<le> length name)"
proof (induction name fs arbitrary: r fs' rule: os_makedirs.induct)
  case (1 name fs)
  obtain head0 tail0 where s0: "path_split name = (head0, tail0)"
    by (cases "path_split name")
  obtain head tail where s1: "(if tail0 = [] then path_split head0 else (head0, tail0)) = (head, tail)"
    by (cases "if tail0 = [] then path_split head0 else (head0, tail0)")
  have hlen: "length head \<le> length name"
    using path_split_length [OF s0] path_split_length [of head0 head tail] s1
    by (auto split: if_splits)
  show ?case
  proof (cases "head \<noteq> [] \<and> tail \<noteq> [] \<and> \<not> os_path_exists fs head")
    case True
    obtain r1 fs1 where rec: "os_makedirs head fs = (r1, fs1)"
      by (cases "os_makedirs head fs")
    have ih: "fs1 p = fs p \<or> (fs p = None \<and> fs1 p = Some (Dir True True) \<and> length p \<le> length head)"
      using "1.IH" [OF s0 [symmetric] s1 [symmetric] True rec] .
    have "os_makedirs name fs = (r, fs')" by (rule "1.prems")
    then have fin: "fs' = fs1 \<or> (\<exists>r'. mkdir_exist_ok name fs1 = (r', fs'))"
      using s0 s1 True rec
      by (subst (asm) os_makedirs.simps) (auto split: option.splits if_splits)
    then have "fs' = fs1 \<or> (fs1 name = None \<and> fs' = fs1(name \<mapsto> Dir True True))"
      using mkdir_exist_ok_frame by blast
    with ih hlen show ?thesis
      by (cases "p = name") auto
  next
    case False
    have "os_makedirs name fs = (r, fs')" by (rule "1.prems")
    then have "mkdir_exist_ok name fs = (r, fs')"
      using s0 s1 False by (subst (asm) os_makedirs.simps) auto
    then have "fs' = fs \<or> (fs name = None \<and> fs' = fs(name \<mapsto> Dir True True))"
      by (rule mkdir_exist_ok_frame)
    then show ?thesis by (cases "p = name") auto
  qed
qed

lemma os_makedirs_isdir:
  assumes "os_makedirs name fs = (None, fs')"
    and "path_split name = (head, tail)" and "tail \<noteq> []" and "tail \<noteq> ''.''"
  shows "os_path_isdir fs' name"
proof -
  have "\<exists>fs1. mkdir_exist_ok name fs1 = (None, fs')"
    using assms by (subst (asm) os_makedirs.simps) (auto split: option.splits if_splits prod.splits)
  then show ?thesis using mkdir_exist_ok_isdir by blast
qed

lemma join2_nonempty: "a \<noteq> [] \<Longrightarrow> join2 a b \<noteq> []"
  by (auto simp: join2_def)

lemma join2_suffix:
  "a \<noteq> [] \<Longrightarrow> b \<noteq> [] \<Longrightarrow> hd b \<noteq> CHR ''/'' \<Longrightarrow> \<exists>y. join2 a b = y @ ''/'' @ b"
proof -
  assume a: "a \<noteq> []" and b: "b \<noteq> []" "hd b \<noteq> CHR ''/''"
  show ?thesis
  proof (cases "last a = CHR ''/''")
    case True
    then have "join2 a b = butlast a @ ''/'' @ b"
      using a b by (simp add: join2_def) (metis append_butlast_last_id append_Cons append_Nil append_assoc)
    then show ?thesis by blast
  next
    case False
    then show ?thesis using a b by (auto simp: join2_def)
  qed
qed

lemma get_config_path_shape:
  "\<exists>y. get_config_path sysname username = y @ ''/globalStorage/storage.json''"
proof -
  have "\<exists>a. a \<noteq> [] \<and> get_config_path sysname username
      = join2 (join2 a ''globalStorage'') ''storage.json''"
  proof (cases "sysname = ''Darwin''")
    case True
    show ?thesis
      by (rule exI [of _ "join2 (join2 (join2 (join2 (join2 ''/Users'' username) ''Library'')
            ''Application Support'') ''Cursor'') ''User''"])
        (simp add: True get_config_path_def os_path_join_def join2_nonempty)
  next
    case False
    show ?thesis
      by (rule exI [of _ "join2 (join2 (join2 (join2 ''/home'' username) ''.config'')
            ''Cursor'') ''User''"])
        (simp add: False get_config_path_def os_path_join_def join2_nonempty)
  qed
  then obtain a where a: "a \<noteq> []"
    and g: "get_config_path sysname username = join2 (join2 a ''globalStorage'') ''storage.json''"
    by blast
  obtain y where y: "join2 a ''globalStorage'' = y @ ''/'' @ ''globalStorage''"
    using join2_suffix [OF a, of "''globalStorage''"] by auto
  have "join2 (y @ ''/'' @ ''globalStorage'') ''storage.json'' = y @ ''/globalStorage/storage.json''"
    by (simp add: join2_def)
  with g y show ?thesis by auto
qed

lemma path_split_parts:
  assumes "CHR ''/'' \<notin> set t"
  shows "takeWhile (\<lambda>c. c \<noteq> CHR ''/'') (rev (h @ CHR ''/'' # t)) = rev t"
    and "dropWhile (\<lambda>c. c \<noteq> CHR ''/'') (rev (h @ CHR ''/'' # t)) = CHR ''/'' # rev h"
proof -
  have all: "x \<in> set (rev t) \<Longrightarrow> x \<noteq> CHR ''/''" for x
    using assms by auto
  have r: "rev (h @ CHR ''/'' # t) = rev t @ CHR ''/'' # rev h"
    by simp
  have "takeWhile (\<lambda>c. c \<noteq> CHR ''/'') (rev t @ CHR ''/'' # rev h)
      = rev t @ takeWhile (\<lambda>c. c \<noteq> CHR ''/'') (CHR ''/'' # rev h)"
    by (rule takeWhile_append2) (rule all)
  then show "takeWhile (\<lambda>c. c \<noteq> CHR ''/'') (rev (h @ CHR ''/'' # t)) = rev t"
    by (simp only: r takeWhile.simps) simp
  have "dropWhile (\<lambda>c. c \<noteq> CHR ''/'') (rev t @ CHR ''/'' # rev h)
      = dropWhile (\<lambda>c. c \<noteq> CHR ''/'') (CHR ''/'' # rev h)"
    by (rule dropWhile_append2) (rule all)
  then show "dropWhile (\<lambda>c. c \<noteq> CHR ''/'') (rev (h @ CHR ''/'' # t)) = CHR ''/'' # rev h"
    by (simp only: r dropWhile.simps) simp
qed

lemma path_split_snd:
  assumes "CHR ''/'' \<notin> set t"
  shows "snd (path_split (h @ CHR ''/'' # t)) = t"
  by (simp only: path_split_def Let_def snd_conv path_split_parts(1) [OF assms] rev_rev_ident)

lemma path_split_fst:
  assumes "CHR ''/'' \<notin> set t" and "h \<noteq> []" and "last h \<noteq> CHR ''/''"
  shows "fst (path_split (h @ CHR ''/'' # t)) = h"
proof -
  have head: "rev (dropWhile (\<lambda>c. c \<noteq> CHR ''/'') (rev (h @ CHR ''/'' # t))) = h @ ''/''"
    by (simp only: path_split_parts(2) [OF assms(1)]) simp
  have "last h \<in> set (h @ ''/'')"
    using assms(2) by simp
  moreover have "last h \<notin> set (replicate n (CHR ''/''))" for n
    using assms(3) by auto
  ultimately have neq: "h @ ''/'' \<noteq> replicate n (CHR ''/'')" for n
    by metis
  have "\<not> (hd (rev h) = CHR ''/'')"
    using assms(3) by (simp only: hd_rev) simp
  then have "dropWhile (\<lambda>c. c = CHR ''/'') (rev h) = rev h"
    by (simp only: dropWhile_eq_self_iff) simp
  then have strip: "rstrip_sep (h @ ''/'') = h"
    by (simp add: rstrip_sep_def)
  have "fst (path_split (h @ CHR ''/'' # t))
      = (if h @ ''/'' \<noteq> [] \<and> h @ ''/'' \<noteq> replicate (length (h @ ''/'')) (CHR ''/'')
         then rstrip_sep (h @ ''/'') else h @ ''/'')"
    by (simp only: path_split_def Let_def fst_conv head)
  also have "\<dots> = h"
    using neq [of "length (h @ ''/'')"] by (simp only: strip) simp
  finally show ?thesis .
qed

lemma dirname_config_path:
  "os_path_dirname (y @ ''/globalStorage/storage.json'') = y @ ''/globalStorage''"
  using path_split_fst [of "''storage.json''" "y @ ''/globalStorage''"]
  by (simp add: os_path_dirname_def)

lemma path_split_dir:
  "snd (path_split (y @ ''/globalStorage'')) = ''globalStorage''"
  using path_split_snd [of "''globalStorage''" y] by simp

lemma backup_path_neq: "backup_path_of p now \<noteq> p"
  by (simp add: backup_path_of_def)

lemma os_chmod_438:
  "os_chmod p 438 fs = Inr fs' \<Longrightarrow>
     (\<forall>q. q \<noteq> p \<longrightarrow> fs' q = fs q)
     \<and> (\<forall>c r w ow. fs p = Some (File c r w ow) \<longrightarrow> fs' p = Some (File c True True ow))
     \<and> (os_path_isdir fs p \<longrightarrow> os_path_isdir fs' p)"
  by (auto simp: os_chmod_def mode_bit_def os_path_isdir_def split: option.splits node.splits if_splits)

lemma copy_text_frame:
  "copy_text src dst fs = (r, fs') \<Longrightarrow> q \<noteq> dst \<Longrightarrow> fs' q = fs q"
  by (auto simp: copy_text_def open_write_def file_write_def
      split: sum.splits option.splits node.splits if_splits)

lemma copy_text_ok:
  "copy_text src dst fs = (None, fs') \<Longrightarrow> src \<noteq> dst \<Longrightarrow>
     \<exists>c r w ow r' w' ow'. fs src = Some (File c r w ow) \<and> utf8_valid (map of_char c)
       \<and> fs' dst = Some (File (universal_newlines c) r' w' ow')"
  by (auto simp: copy_text_def open_read_def open_write_def file_write_def text_decode_def
      split: sum.splits option.splits node.splits if_splits)

lemma config_path_dirname_shorter:
  "length (os_path_dirname (get_config_path sysname username))
     < length (get_config_path sysname username)"
proof -
  obtain y where "get_config_path sysname username = y @ ''/globalStorage/storage.json''"
    using get_config_path_shape by blast
  then show ?thesis by (simp add: dirname_config_path)
qed

lemma makedirs_config_node:
  assumes "os_makedirs (os_path_dirname (get_config_path sysname username)) fs = (r, fs1)"
  shows "fs1 (get_config_path sysname username) = fs (get_config_path sysname username)"
  using os_makedirs_frame [OF assms, of "get_config_path sysname username"]
    config_path_dirname_shorter [of sysname username]
  by auto

lemma makedirs_config_dir:
  assumes "os_makedirs (os_path_dirname (get_config_path sysname username)) fs = (None, fs1)"
  shows "os_path_isdir fs1 (os_path_dirname (get_config_path sysname username))"
proof -
  obtain y where y: "get_config_path sysname username = y @ ''/globalStorage/storage.json''"
    using get_config_path_shape by blast
  have d: "os_path_dirname (get_config_path sysname username) = y @ ''/globalStorage''"
    by (simp add: y dirname_config_path)
  obtain h where sp: "path_split (y @ ''/globalStorage'') = (h, ''globalStorage'')"
    using path_split_dir [of y] by (cases "path_split (y @ ''/globalStorage'')") simp
  show ?thesis
    using os_makedirs_isdir [OF assms [unfolded d] sp] by (simp add: d)
qed

lemma backup_existing_absent:
  "fs p = None \<Longrightarrow> backup_existing p now fs = (None, fs, [])"
  by (simp add: backup_existing_def os_path_exists_def)

lemma backup_existing_frame:
  assumes "backup_existing p now fs = (r, fs2, logged)"
  shows "q \<noteq> p \<Longrightarrow> q \<noteq> backup_path_of p now \<Longrightarrow> fs2 q = fs q"
    and "file_content fs2 p = file_content fs p"
    and "os_path_isdir fs q \<Longrightarrow> q \<noteq> backup_path_of p now \<Longrightarrow> os_path_isdir fs2 q"
proof -
  have cases: "fs2 = fs \<or> (\<exists>fs1 r'. os_chmod p 438 fs = Inr fs1
      \<and> copy_text p (backup_path_of p now) fs1 = (r', fs2))"
    using assms
    by (auto simp: backup_existing_def Let_def split: if_splits sum.splits prod.splits option.splits)
  show "q \<noteq> p \<Longrightarrow> q \<noteq> backup_path_of p now \<Longrightarrow> fs2 q = fs q"
    using cases os_chmod_438 copy_text_frame by metis
  show "file_content fs2 p = file_content fs p"
  proof -
    { fix fs1 r' assume c: "os_chmod p 438 fs = Inr fs1"
        and t: "copy_text p (backup_path_of p now) fs1 = (r', fs2)"
      have "fs2 p = fs1 p"
        using copy_text_frame [OF t, of p] backup_path_neq [of p now] by auto
      moreover have "file_content fs1 p = file_content fs p"
        using c by (auto simp: os_chmod_def file_content_def split: option.splits node.splits if_splits)
      ultimately have "file_content fs2 p = file_content fs p"
        by (simp add: file_content_def) }
    with cases show ?thesis by auto
  qed
  show "os_path_isdir fs q \<Longrightarrow> q \<noteq> backup_path_of p now \<Longrightarrow> os_path_isdir fs2 q"
    using cases os_chmod_438 [of p fs] copy_text_frame [of p "backup_path_of p now" _ _ fs2 q]
    by (cases "q = p") (auto simp: os_path_isdir_def)
qed

lemma backup_existing_file:
  assumes "backup_existing p now fs = (None, fs2, logged)" and "fs p = Some (File c r w ow)"
  shows "fs2 p = Some (File c True True ow)"
proof -
  obtain fs1 r' where c: "os_chmod p 438 fs = Inr fs1"
    and t: "copy_text p (backup_path_of p now) fs1 = (r', fs2)"
    using assms
    by (auto simp: backup_existing_def Let_def os_path_exists_def
        split: if_splits sum.splits prod.splits option.splits)
  have "fs2 p = fs1 p"
    using copy_text_frame [OF t, of p] backup_path_neq [of p now] by auto
  then show ?thesis using os_chmod_438 [OF c] assms(2) by simp
qed

lemma save_config_ok:
  assumes "save_config J sysname now config username fs = (None, fs', logged)"
  obtains fs1 fs2 original fs3 where
    "os_makedirs (os_path_dirname (get_config_path sysname username)) fs = (None, fs1)"
    "backup_existing (get_config_path sysname username) now fs1 = (None, fs2, logged)"
    "load_original J fs2 (get_config_path sysname username) = Inr (JDict original)"
    "open_write (get_config_path sysname username) fs2 = Inr fs3"
    "fs' = file_write (get_config_path sysname username)
             (json_dumps J 2 (JDict (dict_merge original (to_dict config)))) fs3"
  using assms
  by (auto simp: save_config_def Let_def
      split: prod.splits option.splits sum.splits json.splits)

lemma open_write_frame:
  "open_write p fs = Inr fs3 \<Longrightarrow> q \<noteq> p \<Longrightarrow> file_write p text fs3 q = fs q"
  by (auto simp: open_write_def file_write_def split: option.splits node.splits if_splits)

lemma open_write_node:
  assumes "open_write p fs = Inr fs3"
  shows "\<exists>r w ow. file_write p text fs3 p = Some (File text r w ow)
           \<and> (fs p = None \<longrightarrow> r = True)
           \<and> (\<forall>c r0 w0 ow0. fs p = Some (File c r0 w0 ow0) \<longrightarrow> r = r0)"
  using assms
  by (auto simp: open_write_def file_write_def split: option.splits node.splits if_splits)

lemma load_original_stored:
  assumes "load_original J fs p = Inr v"
  shows "stored_json J fs p = Some v"
  using assms
  by (auto simp: load_original_def stored_json_def json_load_def read_text_def open_read_def
      os_path_exists_def split: if_splits option.splits node.splits sum.splits)

lemma stored_json_cong:
  "file_content fs2 p = file_content fs p \<Longrightarrow> (fs2 p = None \<longleftrightarrow> fs p = None)
     \<Longrightarrow> stored_json J fs2 p = stored_json J fs p"
  by (auto simp: stored_json_def file_content_def split: option.splits node.splits)


lemma save_config_written:
  assumes "save_config J sysname now config username fs = (None, fs', logged)"
  shows "\<exists>original w ow.
      stored_json J fs (get_config_path sysname username) = Some (JDict original)
      \<and> fs' (get_config_path sysname username)
          = Some (File (json_dumps J 2 (JDict (dict_merge original (to_dict config)))) True w ow)"
proof -
  let ?p = "get_config_path sysname username"
  obtain fs1 fs2 original fs3 where
    m: "os_makedirs (os_path_dirname ?p) fs = (None, fs1)"
    and b: "backup_existing ?p now fs1 = (None, fs2, logged)"
    and l: "load_original J fs2 ?p = Inr (JDict original)"
    and ow: "open_write ?p fs2 = Inr fs3"
    and fs': "fs' = file_write ?p (json_dumps J 2 (JDict (dict_merge original (to_dict config)))) fs3"
    using assms by (rule save_config_ok)
  have n1: "fs1 ?p = fs ?p" using m by (rule makedirs_config_node)
  have st2: "stored_json J fs2 ?p = Some (JDict original)"
    using l by (rule load_original_stored)
  have c2: "file_content fs2 ?p = file_content fs1 ?p"
    using b by (rule backup_existing_frame(2))
  have none_iff: "fs2 ?p = None \<longleftrightarrow> fs1 ?p = None"
  proof (cases "fs1 ?p")
    case None
    then show ?thesis using b by (simp add: backup_existing_absent)
  next
    case (Some n)
    have "fs2 ?p \<noteq> None"
    proof (cases n)
      case (File c r w ow)
      then show ?thesis using backup_existing_file [OF b] Some by simp
    next
      case (Dir w ow)
      then have "os_path_isdir fs1 ?p" using Some by (simp add: os_path_isdir_def)
      then have "os_path_isdir fs2 ?p"
        using backup_existing_frame(3) [OF b, of ?p] backup_path_neq [of ?p now] by metis
      then show ?thesis by (auto simp: os_path_isdir_def split: option.splits)
    qed
    then show ?thesis using Some by simp
  qed
  have st: "stored_json J fs ?p = Some (JDict original)"
    using st2 stored_json_cong [OF c2 none_iff, of J] n1
    by (simp add: stored_json_def)
  obtain r w ow' where node: "fs' ?p = Some (File (json_dumps J 2 (JDict (dict_merge original (to_dict config)))) r w ow')"
    and rn: "fs2 ?p = None \<longrightarrow> r = True"
    and rf: "\<forall>c r0 w0 ow0. fs2 ?p = Some (File c r0 w0 ow0) \<longrightarrow> r = r0"
    using open_write_node [OF ow, of "json_dumps J 2 (JDict (dict_merge original (to_dict config)))"]
    unfolding fs' by auto
  have "r = True"
  proof (cases "fs1 ?p")
    case None
    then show ?thesis using none_iff rn by simp
  next
    case (Some n)
    show ?thesis
    proof (cases n)
      case (File c r0 w0 ow0)
      then have "fs2 ?p = Some (File c True True ow0)"
        using backup_existing_file [OF b] Some by simp
      then have "r = True"
        by (rule rf [rule_format])
      then show ?thesis .
    next
      case (Dir w0 ow0)
      then have "os_path_isdir fs1 ?p" using Some by (simp add: os_path_isdir_def)
      then have "os_path_isdir fs2 ?p"
        using backup_existing_frame(3) [OF b, of ?p] backup_path_neq [of ?p now] by metis
      then show ?thesis using ow
        by (auto simp: os_path_isdir_def open_write_def split: option.splits node.splits)
    qed
  qed
  with st node show ?thesis by blast
qed

section \<open>Properties of the configuration store\<close>

lemma dict_merge_empty: "dict_merge [] (to_dict c) = to_dict c"
  by (simp add: dict_merge_def to_dict_def)

lemma save_config_cases:
  assumes "save_config J sysname now config username fs = (r, fs', logged)"
  shows
    "(\<exists>e. os_makedirs (os_path_dirname (get_config_path sysname username)) fs = (Some e, fs')
          \<and> r = Some e \<and> logged = [])
     \<or> (\<exists>fs1. os_makedirs (os_path_dirname (get_config_path sysname username)) fs = (None, fs1)
          \<and> ((\<exists>e. backup_existing (get_config_path sysname username) now fs1 = (Some e, fs', logged)
                  \<and> r = Some e)
             \<or> (\<exists>fs2. backup_existing (get_config_path sysname username) now fs1 = (None, fs2, logged)
                  \<and> ((\<exists>e. load_original J fs2 (get_config_path sysname username) = Inl e
                          \<and> r = Some (AppError ERR_CONFIG ''save_config'' (get_config_path sysname username) e)
                          \<and> fs' = fs2)
                     \<or> (\<exists>v. load_original J fs2 (get_config_path sysname username) = Inr v
                          \<and> \<not> is_dict v
                          \<and> r = Some (AppError ERR_CONFIG ''save_config'' (get_config_path sysname username) TypeError)
                          \<and> fs' = fs2)
                     \<or> (\<exists>d e. load_original J fs2 (get_config_path sysname username) = Inr (JDict d)
                          \<and> open_write (get_config_path sysname username) fs2 = Inl e
                          \<and> r = Some (AppError ERR_CONFIG ''save_config'' (get_config_path sysname username) e)
                          \<and> fs' = fs2)
                     \<or> (\<exists>d fs3. load_original J fs2 (get_config_path sysname username) = Inr (JDict d)
                          \<and> open_write (get_config_path sysname username) fs2 = Inr fs3
                          \<and> r = None
                          \<and> fs' = file_write (get_config_path sysname username)
                                (json_dumps J 2 (JDict (dict_merge d (to_dict config)))) fs3)))))"
  using assms
  by (auto simp: save_config_def Let_def split: prod.splits option.splits sum.splits json.splits)

text \<open>
  Claim C5. When \<^verbatim>\<open>save_config\<close> returns normally and the configuration file held a JSON
  object, the document written is that object with exactly the four keys
  \<^verbatim>\<open>telemetry.macMachineId\<close>, \<^verbatim>\<open>telemetry.machineId\<close>, \<^verbatim>\<open>telemetry.devDeviceId\<close> and
  \<^verbatim>\<open>telemetry.sqmId\<close> set to the new identifiers; every other key maps to its original
  value.
\<close>

theorem save_config_overwrites_four_keys:
  assumes "save_config J sysname now config username fs = (None, fs', logged)"
    and "stored_json J fs (get_config_path sysname username) = Some (JDict original)"
  shows "\<exists>new_data.
      file_content fs' (get_config_path sysname username) = Some (json_dumps J 2 (JDict new_data))
      \<and> map_of new_data ''telemetry.macMachineId'' = Some (telemetry_mac_machine_id config)
      \<and> map_of new_data ''telemetry.machineId'' = Some (telemetry_machine_id config)
      \<and> map_of new_data ''telemetry.devDeviceId'' = Some (telemetry_dev_device_id config)
      \<and> map_of new_data ''telemetry.sqmId'' = Some (telemetry_sqm_id config)
      \<and> (\<forall>k. k \<notin> {''telemetry.macMachineId'', ''telemetry.machineId'',
                    ''telemetry.devDeviceId'', ''telemetry.sqmId''}
            \<longrightarrow> map_of new_data k = map_of original k)"
proof -
  obtain original' w ow where
    st: "stored_json J fs (get_config_path sysname username) = Some (JDict original')"
    and node: "fs' (get_config_path sysname username)
      = Some (File (json_dumps J 2 (JDict (dict_merge original' (to_dict config)))) True w ow)"
    using save_config_written [OF assms(1)] by blast
  have eq: "original' = original"
    using st assms(2) by simp
  show ?thesis
    by (rule exI [of _ "dict_merge original (to_dict config)"])
      (simp add: node eq file_content_def map_of_dict_merge_to_dict)
qed

text \<open>
  Claim C6. Round trip: after \<^verbatim>\<open>save_config\<close> has returned normally,
  \<^verbatim>\<open>read_existing_config\<close> for the same user returns the four values that were saved,
  provided the json module reads the written document back as itself.
\<close>

theorem save_then_read_roundtrip:
  assumes "save_config J sysname now config username fs = (None, fs', logged)"
    and "stored_json J fs (get_config_path sysname username) = Some (JDict original)"
    and "reads_back J (JDict (dict_merge original (to_dict config)))"
  shows "read_existing_config J sysname username fs' = Inr (Some config)"
proof -
  obtain original' w ow where
    st: "stored_json J fs (get_config_path sysname username) = Some (JDict original')"
    and node: "fs' (get_config_path sysname username)
      = Some (File (json_dumps J 2 (JDict (dict_merge original' (to_dict config)))) True w ow)"
    using save_config_written [OF assms(1)] by blast
  have eq: "original' = original"
    using st assms(2) by simp
  obtain t where dec: "text_decode (json_dumps J 2 (JDict (dict_merge original (to_dict config)))) = Inr t"
    and lo: "json_loads J t = Some (JDict (dict_merge original (to_dict config)))"
    using assms(3) by (auto simp: reads_back_def split: sum.splits)
  have "json_load J fs' (get_config_path sysname username)
      = Inr (JDict (dict_merge original (to_dict config)))"
    by (simp add: json_load_def read_text_def open_read_def node eq dec lo)
  then show ?thesis
    by (simp add: read_existing_config_def Let_def os_path_exists_def node dict_get_merged)
qed

text \<open>
  When the configuration file does not exist, a normal return of \<^verbatim>\<open>save_config\<close> leaves
  the parent directory and the file with the four identifiers, logs nothing about a
  backup, and leaves every other path as before or as a directory made on the way.
\<close>

lemma save_config_absent_return:
  assumes "\<not> os_path_exists fs (get_config_path sysname username)"
    and "save_config J sysname now config username fs = (None, fs', logged)"
  shows "os_path_isdir fs' (os_path_dirname (get_config_path sysname username))
    \<and> file_content fs' (get_config_path sysname username)
        = Some (json_dumps J 2 (JDict (to_dict config)))
    \<and> logged = []
    \<and> (\<forall>q. q \<noteq> get_config_path sysname username
          \<longrightarrow> fs' q = fs q \<or> (fs q = None \<and> fs' q = Some (Dir True True)))"
proof -
  let ?p = "get_config_path sysname username"
  obtain fs1 fs2 original fs3 where
    m: "os_makedirs (os_path_dirname ?p) fs = (None, fs1)"
    and b: "backup_existing ?p now fs1 = (None, fs2, logged)"
    and l: "load_original J fs2 ?p = Inr (JDict original)"
    and ow: "open_write ?p fs2 = Inr fs3"
    and fs': "fs' = file_write ?p (json_dumps J 2 (JDict (dict_merge original (to_dict config)))) fs3"
    using assms(2) by (rule save_config_ok)
  have absent: "fs ?p = None"
    using assms(1) by (simp add: os_path_exists_def)
  have n1: "fs1 ?p = None"
    using makedirs_config_node [OF m] absent by simp
  have b': "fs2 = fs1" "logged = []"
    using b backup_existing_absent [of fs1 ?p now] n1 by simp_all
  have orig: "original = []"
    using l n1 b' by (simp add: load_original_def os_path_exists_def)
  have frame: "q \<noteq> ?p \<Longrightarrow> fs' q = fs1 q" for q
    using open_write_frame [OF ow] fs' b' by simp
  have dir1: "os_path_isdir fs1 (os_path_dirname ?p)"
    using m by (rule makedirs_config_dir)
  have neq: "os_path_dirname ?p \<noteq> ?p"
    using config_path_dirname_shorter [of sysname username] by auto
  have dir: "os_path_isdir fs' (os_path_dirname ?p)"
    using dir1 frame [OF neq] by (simp add: os_path_isdir_def)
  have content: "file_content fs' ?p = Some (json_dumps J 2 (JDict (to_dict config)))"
    using open_write_node [OF ow, of "json_dumps J 2 (JDict (dict_merge original (to_dict config)))"]
    unfolding fs' by (auto simp: file_content_def orig dict_merge_empty)
  have others: "\<forall>q. q \<noteq> ?p \<longrightarrow> fs' q = fs q \<or> (fs q = None \<and> fs' q = Some (Dir True True))"
  proof (intro allI impI)
    fix q assume q: "q \<noteq> ?p"
    show "fs' q = fs q \<or> (fs q = None \<and> fs' q = Some (Dir True True))"
      using os_makedirs_frame [OF m, of q] frame [OF q] by auto
  qed
  show ?thesis
    using dir content b'(2) others by blast
qed

text \<open>
  Claim C10. For an existing, readable configuration file whose content parses as JSON
  but not to an object, \<^verbatim>\<open>read_existing_config\<close> returns neither a configuration nor
  \<^verbatim>\<open>None\<close>: it raises \<^verbatim>\<open>AppError\<close> with the type \<^verbatim>\<open>config_error\<close>, the operation
  \<^verbatim>\<open>read_config\<close> and the path, around the \<^verbatim>\<open>AttributeError\<close> of \<^verbatim>\<open>data.get\<close>.
\<close>

theorem read_existing_config_non_object:
  assumes "fs (get_config_path sysname username) = Some (File c True w ow)"
    and "text_decode c = Inr text"
    and "json_loads J text = Some v"
    and "\<not> is_dict v"
  shows "read_existing_config J sysname username fs
    = Inl (AppError ERR_CONFIG ''read_config'' (get_config_path sysname username) AttributeError)"
proof -
  have "json_load J fs (get_config_path sysname username) = Inr v"
    using assms(1-3) by (simp add: json_load_def read_text_def open_read_def)
  then show ?thesis
    using assms(1,4)
    by (cases v) (simp_all add: read_existing_config_def Let_def os_path_exists_def)
qed

lemma os_chmod_owned_file:
  "fs p = Some (File c r w True) \<Longrightarrow> \<exists>fs'. os_chmod p 438 fs = Inr fs'"
  by (simp add: os_chmod_def)

lemma backup_existing_owned_file:
  assumes "fs p = Some (File c r w True)"
  shows "\<exists>fs2 logged. backup_existing p now fs = (None, fs2, logged)"
  using assms
  by (auto simp: backup_existing_def os_path_exists_def os_chmod_def Let_def split: prod.splits option.splits)

text \<open>
  Claim C2, as amended. In \<^verbatim>\<open>save_config\<close> the empty object stands in only for a file
  that is absent. When \<^verbatim>\<open>save_config\<close> returns normally, the file held a JSON object
  (the empty one if absent) and the written document is that object merged with the new
  identifiers. When it raises, the content of the file is as before: nothing was
  merged or written. For an existing file of the process whose content does not parse
  to a JSON object, with the directories in place, it raises \<^verbatim>\<open>AppError\<close> with the
  operation \<^verbatim>\<open>save_config\<close>.
\<close>

theorem save_config_load_is_strict:
  assumes "save_config J sysname now config username fs = (r, fs', logged)"
  shows "(r = None \<longrightarrow>
            (\<exists>original. stored_json J fs (get_config_path sysname username) = Some (JDict original)
               \<and> file_content fs' (get_config_path sysname username)
                   = Some (json_dumps J 2 (JDict (dict_merge original (to_dict config))))))
    \<and> (r \<noteq> None \<longrightarrow>
            file_content fs' (get_config_path sysname username)
              = file_content fs (get_config_path sysname username))
    \<and> (fs (get_config_path sysname username) = None \<and> r = None \<longrightarrow>
            file_content fs' (get_config_path sysname username)
              = Some (json_dumps J 2 (JDict (to_dict config))))
    \<and> ((\<exists>c r0 w0. fs (get_config_path sysname username) = Some (File c r0 w0 True))
          \<and> (\<forall>d. stored_json J fs (get_config_path sysname username) \<noteq> Some (JDict d))
          \<and> fst (os_makedirs (os_path_dirname (get_config_path sysname username)) fs) = None \<longrightarrow>
            (\<exists>e. r = Some (AppError ERR_CONFIG ''save_config'' (get_config_path sysname username) e)))"
proof -
  let ?p = "get_config_path sysname username"
  have ok: "\<exists>original. stored_json J fs ?p = Some (JDict original)
      \<and> file_content fs' ?p = Some (json_dumps J 2 (JDict (dict_merge original (to_dict config))))"
    if "r = None"
    using save_config_written [OF assms [unfolded that]] by (auto simp: file_content_def)
  have absent: "file_content fs' ?p = Some (json_dumps J 2 (JDict (to_dict config)))"
    if "fs ?p = None" "r = None"
    using ok [OF that(2)] that(1) by (auto simp: stored_json_def dict_merge_empty)
  have unchanged: "file_content fs' ?p = file_content fs ?p" if "r \<noteq> None"
  proof -
    have mk: "file_content fs1 ?p = file_content fs ?p"
      if "os_makedirs (os_path_dirname ?p) fs = (x, fs1)" for x fs1
      using makedirs_config_node [OF that] by (simp add: file_content_def)
    have bk: "file_content fs2 ?p = file_content fs1 ?p"
      if "backup_existing ?p now fs1 = (x, fs2, lg)" for x fs1 fs2 lg
      using that by (rule backup_existing_frame(2))
    show ?thesis
      using save_config_cases [OF assms] \<open>r \<noteq> None\<close> mk bk by (elim disjE exE conjE) simp_all
  qed
  have strict: "\<exists>e. r = Some (AppError ERR_CONFIG ''save_config'' ?p e)"
    if f: "fs ?p = Some (File c r0 w0 True)"
      and nd: "\<forall>d. stored_json J fs ?p \<noteq> Some (JDict d)"
      and mk: "fst (os_makedirs (os_path_dirname ?p) fs) = None" for c r0 w0
  proof -
    obtain fs1 where m: "os_makedirs (os_path_dirname ?p) fs = (None, fs1)"
      using mk by (cases "os_makedirs (os_path_dirname ?p) fs") simp
    have f1: "fs1 ?p = Some (File c r0 w0 True)"
      using makedirs_config_node [OF m] f by simp
    obtain fs2 lg where b: "backup_existing ?p now fs1 = (None, fs2, lg)"
      using backup_existing_owned_file [of fs1 ?p c r0 w0 now] f1 by blast
    have f2: "fs2 ?p = Some (File c True True True)"
      using backup_existing_file [of ?p now fs1 fs2 lg c r0 w0 True] b f1 by simp
    have "stored_json J fs2 ?p = stored_json J fs ?p"
      using f f2 by (simp add: stored_json_def)
    then have nl: "\<forall>d. load_original J fs2 ?p \<noteq> Inr (JDict d)"
      using load_original_stored [of J fs2 ?p] nd by auto
    show ?thesis
      using save_config_cases [OF assms] m b nl by (elim disjE exE conjE) auto
  qed
  show ?thesis
    using ok unchanged absent strict by blast
qed

lemma universal_newlines_id: "CHR 0x0D \<notin> set s \<Longrightarrow> universal_newlines s = s"
  by (induction s rule: universal_newlines.induct) auto

lemma backup_existing_created:
  assumes "backup_existing p now fs = (None, fs2, logged)"
    and "fs p = Some (File c r w ow)"
  shows "(\<exists>e. logged = [BackupFailed e])
    \<or> (logged = [BackupCreated (backup_path_of p now)]
        \<and> file_content fs2 (backup_path_of p now) = Some (universal_newlines c))"
proof -
  obtain fs1 r' where c: "os_chmod p 438 fs = Inr fs1"
    and t: "copy_text p (backup_path_of p now) fs1 = (r', fs2)"
    and lg: "logged = (case r' of None \<Rightarrow> [BackupCreated (backup_path_of p now)]
                       | Some e \<Rightarrow> [BackupFailed e])"
    using assms
    by (auto simp: backup_existing_def Let_def os_path_exists_def
        split: if_splits sum.splits prod.splits option.splits)
  show ?thesis
  proof (cases r')
    case None
    have "fs1 p = Some (File c True True ow)"
      using os_chmod_438 [OF c] assms(2) by simp
    then have "file_content fs2 (backup_path_of p now) = Some (universal_newlines c)"
      using copy_text_ok [OF t [unfolded None]] backup_path_neq [of p now]
      by (auto simp: file_content_def)
    then show ?thesis using lg None by simp
  next
    case (Some e)
    then show ?thesis using lg by simp
  qed
qed

section \<open>What save\_config returns when the directories are in place\<close>

lemma os_makedirs_existing:
  assumes "os_path_isdir fs name" and "path_split name = (h, t)" and "t \<noteq> []"
    and "os_path_exists fs h"
  shows "os_makedirs name fs = (None, fs)"
proof -
  have "fs name \<noteq> None"
    using assms(1) by (auto simp: os_path_isdir_def split: option.splits)
  then have "mkdir_exist_ok name fs = (None, fs)"
    using assms(1) by (simp add: mkdir_exist_ok_def os_mkdir_def)
  then show ?thesis
    using assms(2-4) by (subst os_makedirs.simps) simp
qed

lemma save_config_existing_result:
  assumes f: "fs (get_config_path sysname username) = Some (File c r w True)"
    and d: "os_path_isdir fs (os_path_dirname (get_config_path sysname username))"
    and h: "os_path_exists fs (fst (path_split (os_path_dirname (get_config_path sysname username))))"
  shows "fst (save_config J sysname now config username fs) =
     (case text_decode c of
        Inl e \<Rightarrow> Some (AppError ERR_CONFIG ''save_config'' (get_config_path sysname username) e)
      | Inr t \<Rightarrow>
          (case json_loads J t of
             None \<Rightarrow> Some (AppError ERR_CONFIG ''save_config'' (get_config_path sysname username)
                        JSONDecodeError)
           | Some v \<Rightarrow>
               if is_dict v then None
               else Some (AppError ERR_CONFIG ''save_config'' (get_config_path sysname username)
                      TypeError)))"
proof -
  let ?p = "get_config_path sysname username"
  obtain y where y: "?p = y @ ''/globalStorage/storage.json''"
    using get_config_path_shape by blast
  have dn: "os_path_dirname ?p = y @ ''/globalStorage''"
    by (simp add: y dirname_config_path)
  obtain hd' where sp: "path_split (os_path_dirname ?p) = (hd', ''globalStorage'')"
    using path_split_dir [of y] dn by (cases "path_split (y @ ''/globalStorage'')") simp
  have m: "os_makedirs (os_path_dirname ?p) fs = (None, fs)"
    using os_makedirs_existing [OF d sp] h sp by simp
  obtain fs2 lg where b: "backup_existing ?p now fs = (None, fs2, lg)"
    using backup_existing_owned_file [of fs ?p c r w now] f by blast
  have f2: "fs2 ?p = Some (File c True True True)"
    using backup_existing_file [of ?p now fs fs2 lg c r w True] b f by simp
  have lo: "load_original J fs2 ?p =
      (case text_decode c of Inl e \<Rightarrow> Inl e
       | Inr t \<Rightarrow> (case json_loads J t of None \<Rightarrow> Inl JSONDecodeError | Some v \<Rightarrow> Inr v))"
    by (simp add: load_original_def os_path_exists_def json_load_def read_text_def open_read_def f2)
  have ow: "\<exists>fs3. open_write ?p fs2 = Inr fs3"
    by (simp add: open_write_def f2)
  show ?thesis
    using m b lo ow
    by (auto simp: save_config_def Let_def split: sum.splits option.splits json.splits)
qed

lemma save_config_absent_result:
  assumes "fs (get_config_path sysname username) = None"
    and "os_makedirs (os_path_dirname (get_config_path sysname username)) fs = (None, fs1)"
    and "fs1 (os_path_dirname (get_config_path sysname username)) = Some (Dir True ow)"
  shows "save_config J sysname now config username fs
    = (None, fs1(get_config_path sysname username
          \<mapsto> File (json_dumps J 2 (JDict (to_dict config))) True True True), [])"
proof -
  let ?p = "get_config_path sysname username"
  have n1: "fs1 ?p = None"
    using makedirs_config_node [OF assms(2)] assms(1) by simp
  have b: "backup_existing ?p now fs1 = (None, fs1, [])"
    using n1 by (rule backup_existing_absent)
  have l: "load_original J fs1 ?p = Inr (JDict [])"
    using n1 by (simp add: load_original_def os_path_exists_def)
  have ow: "open_write ?p fs1 = Inr (fs1(?p \<mapsto> File [] True True True))"
    using n1 assms(3) by (simp add: open_write_def)
  show ?thesis
    by (simp add: save_config_def Let_def assms(2) b l ow file_write_def dict_merge_empty)
qed

text \<open>
  The directories of a chain are missing and no longer than the name; along a chain
  \<^verbatim>\<open>os.makedirs\<close> makes exactly them and raises nothing.
\<close>

lemma dir_chain_members:
  "dir_chain fs name ds \<Longrightarrow> d \<in> set ds \<Longrightarrow> fs d = None \<and> length d \<le> length name"
proof (induction arbitrary: d rule: dir_chain.induct)
  case (present fs name ow head tail)
  then show ?case by simp
next
  case (below_present fs name head tail ow)
  then show ?case by simp
next
  case (below_missing fs name head tail ds)
  have "length head \<le> length name"
    using path_split_length [OF below_missing.hyps(2)] by simp
  then show ?case
    using below_missing.prems below_missing.IH [of d] below_missing.hyps(1) by auto
qed

lemma os_makedirs_chain:
  "dir_chain fs name ds \<Longrightarrow>
     os_makedirs name fs = (None, \<lambda>q. if q \<in> set ds then Some (Dir True True) else fs q)
     \<and> (name \<in> set ds \<or> (\<exists>ow. fs name = Some (Dir True ow)))"
proof (induction rule: dir_chain.induct)
  case (present fs name ow head tail)
  have "os_path_isdir fs name"
    using present(1) by (simp add: os_path_isdir_def)
  then have "os_makedirs name fs = (None, fs)"
    using present(2-4) by (intro os_makedirs_existing) (auto simp: os_path_exists_def)
  then show ?case using present(1) by simp
next
  case (below_present fs name head tail ow)
  have dn: "os_path_dirname name = head"
    using below_present(2) by (simp add: os_path_dirname_def)
  have mk: "mkdir_exist_ok name fs = (None, fs(name \<mapsto> Dir True True))"
    using below_present(1,4) dn by (simp add: mkdir_exist_ok_def os_mkdir_def)
  have "os_makedirs name fs = (None, fs(name \<mapsto> Dir True True))"
    using below_present(2-4) mk by (subst os_makedirs.simps) (simp add: os_path_exists_def)
  moreover have "fs(name \<mapsto> Dir True True)
      = (\<lambda>q. if q \<in> set [name] then Some (Dir True True) else fs q)"
    by auto
  ultimately show ?case by simp
next
  case (below_missing fs name head tail ds)
  let ?F = "\<lambda>q. if q \<in> set ds then Some (Dir True True) else fs q"
  have rec: "os_makedirs head fs = (None, ?F)"
    and hd_in: "head \<in> set ds \<or> (\<exists>ow. fs head = Some (Dir True ow))"
    using below_missing.IH by simp_all
  have hd_dir: "?F head = Some (Dir True True)"
    using hd_in below_missing.hyps(6) by auto
  have len: "length head < length name"
    using path_split_length [OF below_missing.hyps(2)] below_missing.hyps(4)
    by (cases tail) auto
  have notin: "name \<notin> set ds"
    using dir_chain_members [OF below_missing.hyps(7), of name] len by auto
  have dn: "os_path_dirname name = head"
    using below_missing.hyps(2) by (simp add: os_path_dirname_def)
  have mk: "mkdir_exist_ok name ?F = (None, ?F(name \<mapsto> Dir True True))"
    using below_missing.hyps(1) notin hd_dir dn
    by (auto simp: mkdir_exist_ok_def os_mkdir_def)
  have "os_makedirs name fs = (None, ?F(name \<mapsto> Dir True True))"
    using below_missing.hyps(2-6) rec mk
    by (subst os_makedirs.simps) (simp add: os_path_exists_def)
  moreover have "?F(name \<mapsto> Dir True True)
      = (\<lambda>q. if q \<in> set (name # ds) then Some (Dir True True) else fs q)"
    by auto
  ultimately show ?case by simp
qed

text \<open>
  Claim C9. When the configuration file does not exist and its directory is there or is
  missing below a directory in which the process may create entries, \<^verbatim>\<open>save_config\<close>
  returns normally: every missing directory of the chain is made, the parent directory
  is there, the file is there and holds the four identifiers, nothing about a backup is
  logged, and every other path is as before, so no backup file is produced.
\<close>

theorem save_config_creates_file:
  assumes "\<not> os_path_exists fs (get_config_path sysname username)"
    and "dir_chain fs (os_path_dirname (get_config_path sysname username)) ds"
  shows "\<exists>fs'.
      save_config J sysname now config username fs = (None, fs', [])
      \<and> os_path_isdir fs' (os_path_dirname (get_config_path sysname username))
      \<and> (\<forall>d \<in> set ds. fs d = None \<and> fs' d = Some (Dir True True))
      \<and> file_content fs' (get_config_path sysname username)
          = Some (json_dumps J 2 (JDict (to_dict config)))
      \<and> (\<forall>q. q \<noteq> get_config_path sysname username \<and> q \<notin> set ds \<longrightarrow> fs' q = fs q)"
proof -
  let ?p = "get_config_path sysname username"
  let ?F = "\<lambda>q. if q \<in> set ds then Some (Dir True True) else fs q"
  have absent: "fs ?p = None"
    using assms(1) by (simp add: os_path_exists_def)
  have m: "os_makedirs (os_path_dirname ?p) fs = (None, ?F)"
    and "os_path_dirname ?p \<in> set ds \<or> (\<exists>ow. fs (os_path_dirname ?p) = Some (Dir True ow))"
    using os_makedirs_chain [OF assms(2)] by simp_all
  then have "\<exists>ow. ?F (os_path_dirname ?p) = Some (Dir True ow)"
    by (cases "os_path_dirname ?p \<in> set ds") auto
  then obtain ow where dnode: "?F (os_path_dirname ?p) = Some (Dir True ow)"
    by (rule exE)
  have s: "save_config J sysname now config username fs
      = (None, ?F(?p \<mapsto> File (json_dumps J 2 (JDict (to_dict config))) True True True), [])"
    using absent m dnode by (rule save_config_absent_result)
  have pnot: "?p \<notin> set ds"
    using dir_chain_members [OF assms(2), of ?p] config_path_dirname_shorter [of sysname username]
    by auto
  have neq: "os_path_dirname ?p \<noteq> ?p"
    using config_path_dirname_shorter [of sysname username] by auto
  have dir: "os_path_isdir (?F(?p \<mapsto> File (json_dumps J 2 (JDict (to_dict config))) True True True))
      (os_path_dirname ?p)"
    using dnode neq by (simp add: os_path_isdir_def)
  have made: "\<forall>d \<in> set ds. fs d = None
      \<and> (?F(?p \<mapsto> File (json_dumps J 2 (JDict (to_dict config))) True True True)) d
          = Some (Dir True True)"
    using dir_chain_members [OF assms(2)] pnot by auto
  have content: "file_content (?F(?p \<mapsto> File (json_dumps J 2 (JDict (to_dict config))) True True True)) ?p
      = Some (json_dumps J 2 (JDict (to_dict config)))"
    by (simp add: file_content_def)
  have others: "\<forall>q. q \<noteq> ?p \<and> q \<notin> set ds
      \<longrightarrow> (?F(?p \<mapsto> File (json_dumps J 2 (JDict (to_dict config))) True True True)) q = fs q"
    by simp
  show ?thesis
    using s dir made content others by blast
qed

lemma backup_existing_result:
  assumes "fs p = Some (File c r w True)"
    and "utf8_valid (map of_char c)"
    and "fs (backup_path_of p now) = None"
    and "fs (os_path_dirname (backup_path_of p now)) = Some (Dir True ow)"
  shows "backup_existing p now fs
    = (None, fs(p \<mapsto> File c True True True,
                backup_path_of p now \<mapsto> File (universal_newlines c) True True True),
       [BackupCreated (backup_path_of p now)])"
proof -
  have neq: "backup_path_of p now \<noteq> p" "os_path_dirname (backup_path_of p now) \<noteq> p"
    using assms(1,4) backup_path_neq [of p now] by auto
  have c: "os_chmod p 438 fs = Inr (fs(p \<mapsto> File c True True True))"
    using assms(1) by (simp add: os_chmod_def mode_bit_def)
  have "copy_text p (backup_path_of p now) (fs(p \<mapsto> File c True True True))
      = (None, fs(p \<mapsto> File c True True True,
                  backup_path_of p now \<mapsto> File (universal_newlines c) True True True))"
    using assms(2-4) neq
    by (simp add: copy_text_def open_read_def open_write_def text_decode_def file_write_def)
  then show ?thesis
    using assms(1) c by (simp add: backup_existing_def os_path_exists_def Let_def)
qed

lemma save_config_existing_saved:
  assumes f: "fs (get_config_path sysname username) = Some (File c r w True)"
    and d: "os_path_isdir fs (os_path_dirname (get_config_path sysname username))"
    and h: "os_path_exists fs (fst (path_split (os_path_dirname (get_config_path sysname username))))"
    and u: "utf8_valid (map of_char c)"
    and bn: "fs (backup_path_of (get_config_path sysname username) now) = None"
    and bd: "fs (os_path_dirname (backup_path_of (get_config_path sysname username) now))
               = Some (Dir True ow)"
    and lo: "json_loads J (universal_newlines c) = Some (JDict original)"
  shows "save_config J sysname now config username fs
    = (None,
       fs(get_config_path sysname username
            \<mapsto> File (json_dumps J 2 (JDict (dict_merge original (to_dict config)))) True True True,
          backup_path_of (get_config_path sysname username) now
            \<mapsto> File (universal_newlines c) True True True),
       [BackupCreated (backup_path_of (get_config_path sysname username) now)])"
proof -
  let ?p = "get_config_path sysname username"
  let ?b = "backup_path_of ?p now"
  obtain y where y: "?p = y @ ''/globalStorage/storage.json''"
    using get_config_path_shape by blast
  have dn: "os_path_dirname ?p = y @ ''/globalStorage''"
    by (simp add: y dirname_config_path)
  obtain hd' where sp: "path_split (os_path_dirname ?p) = (hd', ''globalStorage'')"
    using path_split_dir [of y] dn by (cases "path_split (y @ ''/globalStorage'')") simp
  have m: "os_makedirs (os_path_dirname ?p) fs = (None, fs)"
    using os_makedirs_existing [OF d sp] h sp by simp
  have b: "backup_existing ?p now fs
      = (None, fs(?p \<mapsto> File c True True True, ?b \<mapsto> File (universal_newlines c) True True True),
         [BackupCreated ?b])"
    using f u bn bd by (rule backup_existing_result)
  have neq: "?b \<noteq> ?p" by (rule backup_path_neq)
  let ?fs2 = "fs(?p \<mapsto> File c True True True, ?b \<mapsto> File (universal_newlines c) True True True)"
  have l: "load_original J ?fs2 ?p = Inr (JDict original)"
    using neq u lo
    by (simp add: load_original_def os_path_exists_def json_load_def read_text_def open_read_def
        text_decode_def)
  have ow: "open_write ?p ?fs2 = Inr (?fs2(?p \<mapsto> File [] True True True))"
    using neq by (simp add: open_write_def)
  have "file_write ?p s (?fs2(?p \<mapsto> File [] True True True))
      = fs(?p \<mapsto> File s True True True, ?b \<mapsto> File (universal_newlines c) True True True)" for s
    using neq by (auto simp: file_write_def fun_upd_twist)
  then show ?thesis
    by (simp add: save_config_def Let_def m b l ow)
qed

lemma save_config_existing_unparsed:
  assumes f: "fs (get_config_path sysname username) = Some (File c r w True)"
    and d: "os_path_isdir fs (os_path_dirname (get_config_path sysname username))"
    and h: "os_path_exists fs (fst (path_split (os_path_dirname (get_config_path sysname username))))"
    and u: "utf8_valid (map of_char c)"
    and bn: "fs (backup_path_of (get_config_path sysname username) now) = None"
    and bd: "fs (os_path_dirname (backup_path_of (get_config_path sysname username) now))
               = Some (Dir True ow)"
    and lo: "json_loads J (universal_newlines c) = None"
  shows "save_config J sysname now config username fs
    = (Some (AppError ERR_CONFIG ''save_config'' (get_config_path sysname username) JSONDecodeError),
       fs(get_config_path sysname username \<mapsto> File c True True True,
          backup_path_of (get_config_path sysname username) now
            \<mapsto> File (universal_newlines c) True True True),
       [BackupCreated (backup_path_of (get_config_path sysname username) now)])"
proof -
  let ?p = "get_config_path sysname username"
  let ?b = "backup_path_of ?p now"
  obtain y where y: "?p = y @ ''/globalStorage/storage.json''"
    using get_config_path_shape by blast
  have dn: "os_path_dirname ?p = y @ ''/globalStorage''"
    by (simp add: y dirname_config_path)
  obtain hd' where sp: "path_split (os_path_dirname ?p) = (hd', ''globalStorage'')"
    using path_split_dir [of y] dn by (cases "path_split (y @ ''/globalStorage'')") simp
  have m: "os_makedirs (os_path_dirname ?p) fs = (None, fs)"
    using os_makedirs_existing [OF d sp] h sp by simp
  have b: "backup_existing ?p now fs
      = (None, fs(?p \<mapsto> File c True True True, ?b \<mapsto> File (universal_newlines c) True True True),
         [BackupCreated ?b])"
    using f u bn bd by (rule backup_existing_result)
  have neq: "?b \<noteq> ?p" by (rule backup_path_neq)
  let ?fs2 = "fs(?p \<mapsto> File c True True True, ?b \<mapsto> File (universal_newlines c) True True True)"
  have l: "load_original J ?fs2 ?p = Inl JSONDecodeError"
    using neq u lo
    by (simp add: load_original_def os_path_exists_def json_load_def read_text_def open_read_def
        text_decode_def)
  show ?thesis
    by (simp add: save_config_def Let_def m b l)
qed

lemma backup_failure_not_raised:
  "backup_existing p now fs = (Some e, fs2, logged) \<Longrightarrow>
     os_chmod p 438 fs = Inl e \<and> fs2 = fs \<and> logged = []"
  by (auto simp: backup_existing_def Let_def split: if_splits sum.splits prod.splits option.splits)

section \<open>The example file systems\<close>

lemma example_config_path:
  "get_config_path ''Linux'' ''u'' = ''/home/u/.config/Cursor/User/globalStorage/storage.json''"
  by (simp add: get_config_path_def os_path_join_def join2_def)

lemma example_config_dirname:
  "os_path_dirname ''/home/u/.config/Cursor/User/globalStorage/storage.json''
     = ''/home/u/.config/Cursor/User/globalStorage''"
  using dirname_config_path [of "''/home/u/.config/Cursor/User''"] by simp

lemma example_split_dir:
  "path_split ''/home/u/.config/Cursor/User/globalStorage''
     = (''/home/u/.config/Cursor/User'', ''globalStorage'')"
  using path_split_fst [of "''globalStorage''" "''/home/u/.config/Cursor/User''"]
    path_split_snd [of "''globalStorage''" "''/home/u/.config/Cursor/User''"]
  by (cases "path_split ''/home/u/.config/Cursor/User/globalStorage''") simp

lemma example_split_User:
  "path_split ''/home/u/.config/Cursor/User'' = (''/home/u/.config/Cursor'', ''User'')"
  using path_split_fst [of "''User''" "''/home/u/.config/Cursor''"]
    path_split_snd [of "''User''" "''/home/u/.config/Cursor''"]
  by (cases "path_split ''/home/u/.config/Cursor/User''") simp

lemma example_split_Cursor:
  "path_split ''/home/u/.config/Cursor'' = (''/home/u/.config'', ''Cursor'')"
  using path_split_fst [of "''Cursor''" "''/home/u/.config''"]
    path_split_snd [of "''Cursor''" "''/home/u/.config''"]
  by (cases "path_split ''/home/u/.config/Cursor''") simp

lemma example_split_config:
  "path_split ''/home/u/.config'' = (''/home/u'', ''.config'')"
  using path_split_fst [of "''.config''" "''/home/u''"]
    path_split_snd [of "''.config''" "''/home/u''"]
  by (cases "path_split ''/home/u/.config''") simp

lemma example_makedirs_config:
  "os_makedirs ''/home/u/.config'' example_home
     = (None, example_home(''/home/u/.config'' \<mapsto> Dir True True))"
  by (subst os_makedirs.simps)
    (simp add: example_split_config example_home_def os_path_exists_def mkdir_exist_ok_def
      os_mkdir_def os_path_dirname_def)

lemma example_makedirs_Cursor:
  "os_makedirs ''/home/u/.config/Cursor'' example_home
     = (None, example_home(''/home/u/.config'' \<mapsto> Dir True True,
          ''/home/u/.config/Cursor'' \<mapsto> Dir True True))"
  by (subst os_makedirs.simps)
    (simp add: example_split_Cursor example_makedirs_config os_path_exists_def
      mkdir_exist_ok_def os_mkdir_def os_path_dirname_def, simp add: example_home_def)

lemma example_makedirs_User:
  "os_makedirs ''/home/u/.config/Cursor/User'' example_home
     = (None, example_home(''/home/u/.config'' \<mapsto> Dir True True,
          ''/home/u/.config/Cursor'' \<mapsto> Dir True True,
          ''/home/u/.config/Cursor/User'' \<mapsto> Dir True True))"
  by (subst os_makedirs.simps)
    (simp add: example_split_User example_makedirs_Cursor os_path_exists_def
      mkdir_exist_ok_def os_mkdir_def os_path_dirname_def, simp add: example_home_def)

lemma example_makedirs_globalStorage:
  "os_makedirs ''/home/u/.config/Cursor/User/globalStorage'' example_home
     = (None, example_home(''/home/u/.config'' \<mapsto> Dir True True,
          ''/home/u/.config/Cursor'' \<mapsto> Dir True True,
          ''/home/u/.config/Cursor/User'' \<mapsto> Dir True True,
          ''/home/u/.config/Cursor/User/globalStorage'' \<mapsto> Dir True True))"
  by (subst os_makedirs.simps)
    (simp add: example_split_dir example_makedirs_User os_path_exists_def
      mkdir_exist_ok_def os_mkdir_def os_path_dirname_def, simp add: example_home_def)

lemma example_backup_path:
  "backup_path_of ''/home/u/.config/Cursor/User/globalStorage/storage.json'' 1700000000
     = ''/home/u/.config/Cursor/User/globalStorage/storage.json.1700000000.bak''"
  by (simp add: backup_path_of_def str_of_int_def digit_char_def)

lemma example_backup_dirname:
  "os_path_dirname ''/home/u/.config/Cursor/User/globalStorage/storage.json.1700000000.bak''
     = ''/home/u/.config/Cursor/User/globalStorage''"
  using path_split_fst [of "''storage.json.1700000000.bak''" "''/home/u/.config/Cursor/User/globalStorage''"]
  by (simp add: os_path_dirname_def)

lemma example_document_text:
  "utf8_valid (map of_char (json_dumps fragment_json 2 (JDict example_document)))"
  "universal_newlines (json_dumps fragment_json 2 (JDict example_document))
     = json_dumps fragment_json 2 (JDict example_document)"
  "json_loads fragment_json (json_dumps fragment_json 2 (JDict example_document))
     = Some (JDict example_document)"
  by code_simp+

lemma example_merged_reads_back:
  "reads_back fragment_json (JDict (dict_merge example_document (to_dict example_config)))"
  by code_simp

lemma example_bad_texts:
  "text_decode ''not json'' = Inr ''not json''"
  "json_loads fragment_json ''not json'' = None"
  "text_decode ''[1]'' = Inr ''[1]''"
  "json_loads fragment_json ''[1]'' = Some (JList [JInt 1])"
  by code_simp+

lemma example_crlf:
  "utf8_valid (map of_char [CHR ''{'', CHR ''}'', CHR 0x0D, CHR 0x0A])"
  "universal_newlines [CHR ''{'', CHR ''}'', CHR 0x0D, CHR 0x0A] = [CHR ''{'', CHR ''}'', CHR 0x0A]"
  "json_loads fragment_json [CHR ''{'', CHR ''}'', CHR 0x0A] = Some (JDict [])"
  by code_simp+

lemma example_installed_nodes:
  "example_installed c (get_config_path ''Linux'' ''u'') = Some (File c True True True)"
  "os_path_isdir (example_installed c) (os_path_dirname (get_config_path ''Linux'' ''u''))"
  "os_path_exists (example_installed c)
     (fst (path_split (os_path_dirname (get_config_path ''Linux'' ''u''))))"
  "example_installed c (backup_path_of (get_config_path ''Linux'' ''u'') 1700000000) = None"
  "example_installed c (os_path_dirname (backup_path_of (get_config_path ''Linux'' ''u'') 1700000000))
     = Some (Dir True True)"
  by (simp_all add: example_config_path example_config_dirname example_split_dir
      example_backup_path example_backup_dirname example_installed_def example_home_def
      os_path_isdir_def os_path_exists_def)

lemma example_installed_saved:
  assumes "utf8_valid (map of_char c)"
    and "json_loads J (universal_newlines c) = Some (JDict original)"
  shows "save_config J ''Linux'' 1700000000 config ''u'' (example_installed c)
    = (None,
       (example_installed c)
         (get_config_path ''Linux'' ''u''
            \<mapsto> File (json_dumps J 2 (JDict (dict_merge original (to_dict config)))) True True True,
          backup_path_of (get_config_path ''Linux'' ''u'') 1700000000
            \<mapsto> File (universal_newlines c) True True True),
       [BackupCreated (backup_path_of (get_config_path ''Linux'' ''u'') 1700000000)])"
  by (rule save_config_existing_saved [OF example_installed_nodes(1-3) assms(1)
        example_installed_nodes(4,5) assms(2)])

lemma example_home_saved:
  "save_config J ''Linux'' now config ''u'' example_home
    = (None,
       example_home(''/home/u/.config'' \<mapsto> Dir True True,
          ''/home/u/.config/Cursor'' \<mapsto> Dir True True,
          ''/home/u/.config/Cursor/User'' \<mapsto> Dir True True,
          ''/home/u/.config/Cursor/User/globalStorage'' \<mapsto> Dir True True,
          get_config_path ''Linux'' ''u''
            \<mapsto> File (json_dumps J 2 (JDict (to_dict config))) True True True),
       [])"
proof -
  have a: "example_home (get_config_path ''Linux'' ''u'') = None"
    by (simp add: example_config_path example_home_def)
  have m: "os_makedirs (os_path_dirname (get_config_path ''Linux'' ''u'')) example_home
      = (None, example_home(''/home/u/.config'' \<mapsto> Dir True True,
          ''/home/u/.config/Cursor'' \<mapsto> Dir True True,
          ''/home/u/.config/Cursor/User'' \<mapsto> Dir True True,
          ''/home/u/.config/Cursor/User/globalStorage'' \<mapsto> Dir True True))"
    by (simp add: example_config_path example_config_dirname example_makedirs_globalStorage)
  show ?thesis
    by (rule save_config_absent_result [OF a m, of True])
      (simp add: example_config_path example_config_dirname)
qed

section \<open>The properties at the examples\<close>

theorem save_config_overwrites_four_keys_witness:
  "\<exists>fs' logged.
     save_config fragment_json ''Linux'' 1700000000 example_config ''u''
       (example_installed (json_dumps fragment_json 2 (JDict example_document)))
       = (None, fs', logged)
     \<and> stored_json fragment_json
         (example_installed (json_dumps fragment_json 2 (JDict example_document)))
         (get_config_path ''Linux'' ''u'') = Some (JDict example_document)
     \<and> (\<exists>new_data.
           file_content fs' (get_config_path ''Linux'' ''u'')
             = Some (json_dumps fragment_json 2 (JDict new_data))
           \<and> map_of new_data ''telemetry.macMachineId'' = Some (telemetry_mac_machine_id example_config)
           \<and> map_of new_data ''telemetry.machineId'' = Some (telemetry_machine_id example_config)
           \<and> map_of new_data ''telemetry.devDeviceId'' = Some (telemetry_dev_device_id example_config)
           \<and> map_of new_data ''telemetry.sqmId'' = Some (telemetry_sqm_id example_config)
           \<and> (\<forall>k. k \<notin> {''telemetry.macMachineId'', ''telemetry.machineId'',
                         ''telemetry.devDeviceId'', ''telemetry.sqmId''}
                 \<longrightarrow> map_of new_data k = map_of example_document k))"
proof -
  let ?c = "json_dumps fragment_json 2 (JDict example_document)"
  let ?fs = "example_installed ?c"
  have lo: "json_loads fragment_json (universal_newlines ?c) = Some (JDict example_document)"
    by (simp only: example_document_text)
  have s: "save_config fragment_json ''Linux'' 1700000000 example_config ''u'' ?fs
      = (None,
         ?fs(get_config_path ''Linux'' ''u''
               \<mapsto> File (json_dumps fragment_json 2
                    (JDict (dict_merge example_document (to_dict example_config)))) True True True,
             backup_path_of (get_config_path ''Linux'' ''u'') 1700000000
               \<mapsto> File (universal_newlines ?c) True True True),
         [BackupCreated (backup_path_of (get_config_path ''Linux'' ''u'') 1700000000)])"
    by (rule example_installed_saved [OF example_document_text(1) lo])
  have st: "stored_json fragment_json ?fs (get_config_path ''Linux'' ''u'') = Some (JDict example_document)"
    by (simp only: stored_json_def example_installed_nodes(1) text_decode_def
        example_document_text if_True option.case node.case sum.case)
  show ?thesis
    by (rule exI, rule exI, intro conjI, rule s, rule st,
        rule save_config_overwrites_four_keys [OF s st])
qed

lemma example_saved:
  "save_config fragment_json ''Linux'' 1700000000 example_config ''u''
     (example_installed (json_dumps fragment_json 2 (JDict example_document)))
   = (None,
      (example_installed (json_dumps fragment_json 2 (JDict example_document)))
        (get_config_path ''Linux'' ''u''
           \<mapsto> File (json_dumps fragment_json 2
                (JDict (dict_merge example_document (to_dict example_config)))) True True True,
         backup_path_of (get_config_path ''Linux'' ''u'') 1700000000
           \<mapsto> File (universal_newlines (json_dumps fragment_json 2 (JDict example_document)))
                True True True),
      [BackupCreated (backup_path_of (get_config_path ''Linux'' ''u'') 1700000000)])"
proof -
  have lo: "json_loads fragment_json (universal_newlines (json_dumps fragment_json 2 (JDict example_document)))
      = Some (JDict example_document)"
    by (simp only: example_document_text)
  show ?thesis
    by (rule example_installed_saved [OF example_document_text(1) lo])
qed

lemma example_stored:
  "stored_json fragment_json
     (example_installed (json_dumps fragment_json 2 (JDict example_document)))
     (get_config_path ''Linux'' ''u'') = Some (JDict example_document)"
  by (simp only: stored_json_def example_installed_nodes(1) text_decode_def
      example_document_text if_True option.case node.case sum.case)

lemma example_unparsed_saved:
  "save_config fragment_json ''Linux'' 1700000000 example_config ''u'' (example_installed ''not json'')
   = (Some (AppError ERR_CONFIG ''save_config'' (get_config_path ''Linux'' ''u'') JSONDecodeError),
      (example_installed ''not json'')
        (get_config_path ''Linux'' ''u'' \<mapsto> File ''not json'' True True True,
         backup_path_of (get_config_path ''Linux'' ''u'') 1700000000
           \<mapsto> File (universal_newlines ''not json'') True True True),
      [BackupCreated (backup_path_of (get_config_path ''Linux'' ''u'') 1700000000)])"
proof -
  have u: "utf8_valid (map of_char ''not json'')"
    by code_simp
  have n: "universal_newlines ''not json'' = ''not json''"
    by code_simp
  have lo: "json_loads fragment_json (universal_newlines ''not json'') = None"
    by (simp only: n example_bad_texts)
  show ?thesis
    by (rule save_config_existing_unparsed [OF example_installed_nodes(1-3) u
          example_installed_nodes(4,5) lo])
qed

theorem save_then_read_roundtrip_witness:
  "\<exists>fs' logged.
     save_config fragment_json ''Linux'' 1700000000 example_config ''u''
       (example_installed (json_dumps fragment_json 2 (JDict example_document)))
       = (None, fs', logged)
     \<and> stored_json fragment_json
         (example_installed (json_dumps fragment_json 2 (JDict example_document)))
         (get_config_path ''Linux'' ''u'') = Some (JDict example_document)
     \<and> reads_back fragment_json (JDict (dict_merge example_document (to_dict example_config)))
     \<and> read_existing_config fragment_json ''Linux'' ''u'' fs' = Inr (Some example_config)"
  by (rule exI, rule exI, intro conjI, rule example_saved, rule example_stored,
      rule example_merged_reads_back,
      rule save_then_read_roundtrip [OF example_saved example_stored example_merged_reads_back])

lemma example_home_chain:
  "dir_chain example_home ''/home/u/.config/Cursor/User/globalStorage''
     [''/home/u/.config/Cursor/User/globalStorage'', ''/home/u/.config/Cursor/User'',
      ''/home/u/.config/Cursor'', ''/home/u/.config'']"
proof -
  have c: "dir_chain example_home ''/home/u/.config'' [''/home/u/.config'']"
    by (rule dir_chain.below_present [OF _ example_split_config])
      (simp_all add: example_home_def)
  have cu: "dir_chain example_home ''/home/u/.config/Cursor''
      [''/home/u/.config/Cursor'', ''/home/u/.config'']"
    by (rule dir_chain.below_missing [OF _ example_split_Cursor _ _ _ _ c])
      (simp_all add: example_home_def)
  have u: "dir_chain example_home ''/home/u/.config/Cursor/User''
      [''/home/u/.config/Cursor/User'', ''/home/u/.config/Cursor'', ''/home/u/.config'']"
    by (rule dir_chain.below_missing [OF _ example_split_User _ _ _ _ cu])
      (simp_all add: example_home_def)
  show ?thesis
    by (rule dir_chain.below_missing [OF _ example_split_dir _ _ _ _ u])
      (simp_all add: example_home_def)
qed

theorem save_config_creates_file_witness:
  "\<not> os_path_exists example_home (get_config_path ''Linux'' ''u'')
   \<and> dir_chain example_home (os_path_dirname (get_config_path ''Linux'' ''u''))
       [''/home/u/.config/Cursor/User/globalStorage'', ''/home/u/.config/Cursor/User'',
        ''/home/u/.config/Cursor'', ''/home/u/.config'']
   \<and> (\<exists>fs'.
        save_config fragment_json ''Linux'' 1700000000 example_config ''u'' example_home
          = (None, fs', [])
        \<and> os_path_isdir fs' (os_path_dirname (get_config_path ''Linux'' ''u''))
        \<and> (\<forall>d \<in> set [''/home/u/.config/Cursor/User/globalStorage'',
                       ''/home/u/.config/Cursor/User'', ''/home/u/.config/Cursor'',
                       ''/home/u/.config''].
              example_home d = None \<and> fs' d = Some (Dir True True))
        \<and> file_content fs' (get_config_path ''Linux'' ''u'')
            = Some (json_dumps fragment_json 2 (JDict (to_dict example_config)))
        \<and> (\<forall>q. q \<noteq> get_config_path ''Linux'' ''u''
               \<and> q \<notin> set [''/home/u/.config/Cursor/User/globalStorage'',
                             ''/home/u/.config/Cursor/User'', ''/home/u/.config/Cursor'',
                             ''/home/u/.config'']
              \<longrightarrow> fs' q = example_home q))"
proof -
  have a: "\<not> os_path_exists example_home (get_config_path ''Linux'' ''u'')"
    by (simp add: example_config_path example_home_def os_path_exists_def)
  have c: "dir_chain example_home (os_path_dirname (get_config_path ''Linux'' ''u''))
       [''/home/u/.config/Cursor/User/globalStorage'', ''/home/u/.config/Cursor/User'',
        ''/home/u/.config/Cursor'', ''/home/u/.config'']"
    unfolding example_config_path example_config_dirname by (rule example_home_chain)
  show ?thesis
    by (rule conjI, rule a, rule conjI, rule c, rule save_config_creates_file [OF a c])
qed

theorem read_existing_config_non_object_witness:
  "example_installed ''[1]'' (get_config_path ''Linux'' ''u'') = Some (File ''[1]'' True True True)
   \<and> text_decode ''[1]'' = Inr ''[1]''
   \<and> json_loads fragment_json ''[1]'' = Some (JList [JInt 1])
   \<and> \<not> is_dict (JList [JInt 1])
   \<and> read_existing_config fragment_json ''Linux'' ''u'' (example_installed ''[1]'')
       = Inl (AppError ERR_CONFIG ''read_config'' (get_config_path ''Linux'' ''u'') AttributeError)"
proof -
  have nd: "\<not> is_dict (JList [JInt 1])"
    by simp
  show ?thesis
    by (intro conjI, rule example_installed_nodes(1), rule example_bad_texts(3),
        rule example_bad_texts(4), rule nd,
        rule read_existing_config_non_object
          [where fs = "example_installed ''[1]''" and sysname = "''Linux''" and username = "''u''",
           OF example_installed_nodes(1) [of "''[1]''"]
             example_bad_texts(3) example_bad_texts(4) nd])
qed


theorem save_config_load_is_strict_witness:
  "(save_config fragment_json ''Linux'' 1700000000 example_config ''u'' (example_installed ''not json'')
      = (Some (AppError ERR_CONFIG ''save_config'' (get_config_path ''Linux'' ''u'') JSONDecodeError),
         (example_installed ''not json'')
           (get_config_path ''Linux'' ''u'' \<mapsto> File ''not json'' True True True,
            backup_path_of (get_config_path ''Linux'' ''u'') 1700000000
              \<mapsto> File (universal_newlines ''not json'') True True True),
         [BackupCreated (backup_path_of (get_config_path ''Linux'' ''u'') 1700000000)])
    \<and> file_content
         ((example_installed ''not json'')
            (get_config_path ''Linux'' ''u'' \<mapsto> File ''not json'' True True True,
             backup_path_of (get_config_path ''Linux'' ''u'') 1700000000
               \<mapsto> File (universal_newlines ''not json'') True True True))
         (get_config_path ''Linux'' ''u'')
        = file_content (example_installed ''not json'') (get_config_path ''Linux'' ''u''))
   \<and> (save_config fragment_json ''Linux'' 1700000000 example_config ''u'' example_home
        = (None,
           example_home(''/home/u/.config'' \<mapsto> Dir True True,
             ''/home/u/.config/Cursor'' \<mapsto> Dir True True,
             ''/home/u/.config/Cursor/User'' \<mapsto> Dir True True,
             ''/home/u/.config/Cursor/User/globalStorage'' \<mapsto> Dir True True,
             get_config_path ''Linux'' ''u''
               \<mapsto> File (json_dumps fragment_json 2 (JDict (to_dict example_config))) True True True),
           [])
      \<and> (\<exists>original.
            stored_json fragment_json example_home (get_config_path ''Linux'' ''u'')
              = Some (JDict original)
            \<and> file_content
                 (example_home(''/home/u/.config'' \<mapsto> Dir True True,
                    ''/home/u/.config/Cursor'' \<mapsto> Dir True True,
                    ''/home/u/.config/Cursor/User'' \<mapsto> Dir True True,
                    ''/home/u/.config/Cursor/User/globalStorage'' \<mapsto> Dir True True,
                    get_config_path ''Linux'' ''u''
                      \<mapsto> File (json_dumps fragment_json 2 (JDict (to_dict example_config)))
                           True True True))
                 (get_config_path ''Linux'' ''u'')
                = Some (json_dumps fragment_json 2
                    (JDict (dict_merge original (to_dict example_config))))))"
proof -
  have ne: "Some (AppError ERR_CONFIG ''save_config'' (get_config_path ''Linux'' ''u'') JSONDecodeError)
      \<noteq> None"
    by simp
  note bad = save_config_load_is_strict [OF example_unparsed_saved]
  note good = save_config_load_is_strict [OF example_home_saved [of fragment_json 1700000000 example_config]]
  show ?thesis
    by (intro conjI, rule example_unparsed_saved,
        rule mp [OF conjunct1 [OF conjunct2 [OF bad]] ne],
        rule example_home_saved, rule mp [OF conjunct1 [OF good] refl])
qed

text \<open>
  Claim C2 as stated fails: for a configuration file that is there but does not parse,
  the load in \<^verbatim>\<open>save_config\<close> does not give the empty object. \<^verbatim>\<open>save_config\<close> raises
  \<^verbatim>\<open>AppError\<close> around the \<^verbatim>\<open>JSONDecodeError\<close>, and the file is left as it was.
\<close>

theorem save_config_lenient_read_counterexample:
  "os_path_exists (example_installed ''not json'') (get_config_path ''Linux'' ''u'')
   \<and> fst (save_config fragment_json ''Linux'' 1700000000 example_config ''u''
          (example_installed ''not json''))
       = Some (AppError ERR_CONFIG ''save_config'' (get_config_path ''Linux'' ''u'') JSONDecodeError)
   \<and> file_content
        (fst (snd (save_config fragment_json ''Linux'' 1700000000 example_config ''u''
           (example_installed ''not json''))))
        (get_config_path ''Linux'' ''u'')
       = Some ''not json''"
proof -
  have e: "os_path_exists (example_installed ''not json'') (get_config_path ''Linux'' ''u'')"
    by (simp add: os_path_exists_def example_installed_nodes(1))
  have neq: "backup_path_of (get_config_path ''Linux'' ''u'') 1700000000 \<noteq> get_config_path ''Linux'' ''u''"
    by (rule backup_path_neq)
  have c: "file_content
        ((example_installed ''not json'')
           (get_config_path ''Linux'' ''u'' \<mapsto> File ''not json'' True True True,
            backup_path_of (get_config_path ''Linux'' ''u'') 1700000000
              \<mapsto> File (universal_newlines ''not json'') True True True))
        (get_config_path ''Linux'' ''u'') = Some ''not json''"
    using neq by (simp add: file_content_def)
  show ?thesis
    unfolding example_unparsed_saved fst_conv snd_conv
    by (intro conjI, rule e, rule refl, rule c)
qed

lemma example_crlf_saved:
  "save_config fragment_json ''Linux'' 1700000000 example_config ''u''
     (example_installed [CHR ''{'', CHR ''}'', CHR 0x0D, CHR 0x0A])
   = (None,
      (example_installed [CHR ''{'', CHR ''}'', CHR 0x0D, CHR 0x0A])
        (get_config_path ''Linux'' ''u''
           \<mapsto> File (json_dumps fragment_json 2 (JDict (dict_merge [] (to_dict example_config))))
                True True True,
         backup_path_of (get_config_path ''Linux'' ''u'') 1700000000
           \<mapsto> File (universal_newlines [CHR ''{'', CHR ''}'', CHR 0x0D, CHR 0x0A]) True True True),
      [BackupCreated (backup_path_of (get_config_path ''Linux'' ''u'') 1700000000)])"
proof -
  have lo: "json_loads fragment_json (universal_newlines [CHR ''{'', CHR ''}'', CHR 0x0D, CHR 0x0A])
      = Some (JDict [])"
    by (simp only: example_crlf)
  show ?thesis
    by (rule example_installed_saved [OF example_crlf(1) lo])
qed

text \<open>
  Claim C4 at a configuration file that ends its line with a carriage return and a line
  feed: \<^verbatim>\<open>save_config\<close> returns normally and logs that the backup was created at
  \<^verbatim>\<open><path>.1700000000.bak\<close>, but the backup holds \<^verbatim>\<open>{}\<close> and a line feed where the file held
  \<^verbatim>\<open>{}\<close>, a carriage return and a line feed: the copy goes through text mode, which
  rewrites line ends, and is not byte for byte.
\<close>

theorem save_config_backup_rewrites_newlines:
  "file_content (example_installed [CHR ''{'', CHR ''}'', CHR 0x0D, CHR 0x0A])
       (get_config_path ''Linux'' ''u'')
     = Some [CHR ''{'', CHR ''}'', CHR 0x0D, CHR 0x0A]
   \<and> fst (save_config fragment_json ''Linux'' 1700000000 example_config ''u''
          (example_installed [CHR ''{'', CHR ''}'', CHR 0x0D, CHR 0x0A])) = None
   \<and> snd (snd (save_config fragment_json ''Linux'' 1700000000 example_config ''u''
          (example_installed [CHR ''{'', CHR ''}'', CHR 0x0D, CHR 0x0A])))
       = [BackupCreated ''/home/u/.config/Cursor/User/globalStorage/storage.json.1700000000.bak'']
   \<and> file_content
        (fst (snd (save_config fragment_json ''Linux'' 1700000000 example_config ''u''
           (example_installed [CHR ''{'', CHR ''}'', CHR 0x0D, CHR 0x0A]))))
        ''/home/u/.config/Cursor/User/globalStorage/storage.json.1700000000.bak''
       = Some [CHR ''{'', CHR ''}'', CHR 0x0A]"
proof -
  have c0: "file_content (example_installed [CHR ''{'', CHR ''}'', CHR 0x0D, CHR 0x0A])
       (get_config_path ''Linux'' ''u'') = Some [CHR ''{'', CHR ''}'', CHR 0x0D, CHR 0x0A]"
    by (simp add: file_content_def example_installed_nodes(1))
  have bp: "backup_path_of (get_config_path ''Linux'' ''u'') 1700000000
      = ''/home/u/.config/Cursor/User/globalStorage/storage.json.1700000000.bak''"
    by (simp only: example_config_path example_backup_path)
  have c1: "file_content
        ((example_installed [CHR ''{'', CHR ''}'', CHR 0x0D, CHR 0x0A])
          (get_config_path ''Linux'' ''u''
             \<mapsto> File (json_dumps fragment_json 2 (JDict (dict_merge [] (to_dict example_config))))
                  True True True,
           backup_path_of (get_config_path ''Linux'' ''u'') 1700000000
             \<mapsto> File (universal_newlines [CHR ''{'', CHR ''}'', CHR 0x0D, CHR 0x0A]) True True True))
        (backup_path_of (get_config_path ''Linux'' ''u'') 1700000000)
      = Some [CHR ''{'', CHR ''}'', CHR 0x0A]"
    by (simp add: file_content_def example_crlf(2))
  have g2: "fst (save_config fragment_json ''Linux'' 1700000000 example_config ''u''
          (example_installed [CHR ''{'', CHR ''}'', CHR 0x0D, CHR 0x0A])) = None"
    by (simp only: example_crlf_saved fst_conv)
  have g3: "snd (snd (save_config fragment_json ''Linux'' 1700000000 example_config ''u''
          (example_installed [CHR ''{'', CHR ''}'', CHR 0x0D, CHR 0x0A])))
       = [BackupCreated ''/home/u/.config/Cursor/User/globalStorage/storage.json.1700000000.bak'']"
    by (simp only: example_crlf_saved snd_conv bp)
  have g4: "file_content
        (fst (snd (save_config fragment_json ''Linux'' 1700000000 example_config ''u''
           (example_installed [CHR ''{'', CHR ''}'', CHR 0x0D, CHR 0x0A]))))
        ''/home/u/.config/Cursor/User/globalStorage/storage.json.1700000000.bak''
       = Some [CHR ''{'', CHR ''}'', CHR 0x0A]"
    unfolding example_crlf_saved fst_conv snd_conv bp by (rule c1 [unfolded bp])
  show ?thesis
    using c0 g2 g3 g4 by (intro conjI)
qed

section \<open>The run after a failed read\<close>


lemma wait_exit_automated:
  "environ ''AUTOMATED_MODE'' = Some ''1'' \<Longrightarrow> wait_exit environ lines = (None, lines)"
  by (simp add: wait_exit_def)



lemma main_saved:
  assumes "environ ''USER'' = Some username"
    and "username \<noteq> []"
    and "read_existing_config J sysname username (files w) = Inr current_config"
    and "new_storage_config current_config (rng w) = (new_config, e1)"
    and "confirm_action T (stdin w) = (Inr True, lines)"
    and "save_config J sysname now new_config username (files w) = (None, fs', saved)"
    and "get_running_cursor_processes pgrep = Inr []"
  shows "main J T sysname now environ pgrep w
    = (fst (wait_exit environ lines),
       w\<lparr>rng := e1, stdin := snd (wait_exit environ lines), files := fs'\<rparr>,
       [ReadingConfig,
        case current_config of Some c \<Rightarrow> ShowCurrentConfig c | None \<Rightarrow> ConfigNotFound,
        GeneratingConfig, ShowNewConfig new_config, SavingConfig] @ saved @ [Success])"
proof -
  have t: "main_try J T sysname now environ username (w\<lparr>stdin := stdin w\<rparr>)
      = (Continue (), w\<lparr>rng := e1, stdin := lines, files := fs'\<rparr>,
         [ReadingConfig,
          case current_config of Some c \<Rightarrow> ShowCurrentConfig c | None \<Rightarrow> ConfigNotFound,
          GeneratingConfig, ShowNewConfig new_config, SavingConfig] @ saved @ [Success])"
    using assms(3-6) by (simp add: main_try_def read_current_config_def)
  have none: "get_running_cursor_processes pgrep = Inr []"
    by (rule assms(7))
  show ?thesis
  proof (cases "environ ''AUTOMATED_MODE'' = Some ''1''")
    case True
    then show ?thesis
      using assms(1,2) none t
      by (simp add: main_def check_cursor_running_def wait_exit_automated)
  next
    case False
    then show ?thesis
      using assms(1,2) none t
      by (simp add: main_def check_cursor_running_def split: prod.splits)
  qed
qed





end
